theory Spec2Isabelle
  imports Main
begin

section \<open>Strings\<close>

text \<open>
  A Python \<^verbatim>\<open>str\<close> is a sequence of Unicode code points, and \<^verbatim>\<open>len\<close>, slicing and
  \<^verbatim>\<open>in\<close> work on code points. Strings are therefore lists of code points; an ASCII
  literal of the source is written \<open>str ''...''\<close>, a glyph by its code points.
\<close>

type_synonym ustr = "nat list"

definition str :: "string \<Rightarrow> ustr" where
  "str s = map of_char s"

text \<open>\<^verbatim>\<open>needle in haystack\<close> on strings: the needle occurs as a contiguous block.\<close>

fun py_in :: "ustr \<Rightarrow> ustr \<Rightarrow> bool" where
  "py_in g [] = (g = [])"
| "py_in g (x # xs) = (take (length g) (x # xs) = g \<or> py_in g xs)"

text \<open>
  \<^verbatim>\<open>str.isspace\<close> for one code point: the characters that \<^verbatim>\<open>str.strip()\<close> removes and
  that \<^verbatim>\<open>\s\<close> matches in a \<^verbatim>\<open>str\<close> pattern.
\<close>

definition py_isspace :: "nat \<Rightarrow> bool" where
  "py_isspace c \<longleftrightarrow>
     (9 \<le> c \<and> c \<le> 13) \<or> (28 \<le> c \<and> c \<le> 32) \<or> c = 133 \<or> c = 160 \<or> c = 5760 \<or>
     (8192 \<le> c \<and> c \<le> 8202) \<or> c = 8232 \<or> c = 8233 \<or> c = 8239 \<or> c = 8287 \<or> c = 12288"

definition py_strip :: "ustr \<Rightarrow> ustr" where
  "py_strip s = rev (dropWhile py_isspace (rev (dropWhile py_isspace s)))"

text \<open>\<^verbatim>\<open>sep.join(parts)\<close>.\<close>

fun py_join :: "ustr \<Rightarrow> ustr list \<Rightarrow> ustr" where
  "py_join sep [] = []"
| "py_join sep [p] = p"
| "py_join sep (p # q # ps) = p @ sep @ py_join sep (q # ps)"

section \<open>Grade extraction (\<^verbatim>\<open>extract_grade_emojis\<close>)\<close>

text \<open>
  \<^verbatim>\<open>GRADE_EMOJI_MAP\<close> is a dict literal; iteration follows insertion order, so it is an
  association list in source order. \<^verbatim>\<open>qa_bot.py\<close> and \<^verbatim>\<open>extra.py\<close> have different tables
  and the same function body.
\<close>

definition GRADE_EMOJI_MAP_qa_bot :: "(ustr \<times> ustr) list" where
  "GRADE_EMOJI_MAP_qa_bot =
    [([0x2197, 0xFE0F], str ''arrow_upper_right''),
     ([0x1F49A], str ''green_heart''),
     ([0x1F525], str ''fire''),
     ([0x1F49B], str ''yellow_heart''),
     ([0x1F9E1], str ''orange_heart''),
     ([0x2764, 0xFE0F], str ''heart''),
     ([0x1F621], str ''rage''),
     ([0x1F442], str ''ear_with_hearing_aid''),
     ([0x274C], str ''x'')]"

definition GRADE_EMOJI_MAP_extra :: "(ustr \<times> ustr) list" where
  "GRADE_EMOJI_MAP_extra =
    [([0x1F49A], str ''green_heart''),
     ([0x1F49B], str ''yellow_heart''),
     ([0x1F9E1], str ''orange_heart''),
     ([0x2764, 0xFE0F], str ''heart''),
     ([0x1F621], str ''rage''),
     ([0x2197, 0xFE0F], str ''arrow_upper_right'')]"

text \<open>The \<^verbatim>\<open>for icon, emoji_name in GRADE_EMOJI_MAP.items()\<close> loop, \<open>found\<close> the accumulator.\<close>

fun extract_loop :: "(ustr \<times> ustr) list \<Rightarrow> ustr \<Rightarrow> ustr list \<Rightarrow> ustr list" where
  "extract_loop [] analysis found = found"
| "extract_loop ((icon, emoji_name) # rest) analysis found =
     extract_loop rest analysis (if py_in icon analysis then found @ [emoji_name] else found)"

definition extract_grade_emojis :: "(ustr \<times> ustr) list \<Rightarrow> ustr \<Rightarrow> ustr list" where
  "extract_grade_emojis grade_emoji_map analysis = extract_loop grade_emoji_map analysis []"

section \<open>Channel restriction (\<^verbatim>\<open>QA_CHANNEL_ID\<close> in \<^verbatim>\<open>qa_bot.py\<close>)\<close>

text \<open>
  \<^verbatim>\<open>_raw_channel if _raw_channel.startswith("C") and len(_raw_channel) > 5 else ""\<close>,
  with \<^verbatim>\<open>_raw_channel\<close> the environment variable or \<^verbatim>\<open>""\<close> when it is unset.
\<close>

definition startswith :: "ustr \<Rightarrow> ustr \<Rightarrow> bool" where
  "startswith s p \<longleftrightarrow> take (length p) s = p"

definition QA_CHANNEL_ID_qa_bot :: "ustr option \<Rightarrow> ustr" where
  "QA_CHANNEL_ID_qa_bot environ =
     (let raw_channel = (case environ of None \<Rightarrow> [] | Some v \<Rightarrow> v)
      in if startswith raw_channel (str ''C'') \<and> length raw_channel > 5 then raw_channel else [])"

section \<open>WAV URL extraction (\<^verbatim>\<open>extract_wav_urls\<close> in \<^verbatim>\<open>qa_bot.py\<close>)\<close>

text \<open>
  The two regular expressions of the source use literals, one optional literal, one greedy
  \<^verbatim>\<open>+\<close> over a character class, one single character class and one capture group. A pattern
  is the list of these items; \<open>match_here\<close> is the backtracking matcher of \<^verbatim>\<open>re\<close> anchored at
  the start of its input: greedy items try the longer alternative first and fall back when
  the rest of the pattern fails.
\<close>

datatype item =
    Lit nat
  | OptLit nat
  | Plus "nat \<Rightarrow> bool"
  | OneOf "nat \<Rightarrow> bool"
  | GroupOpen
  | GroupClose

text \<open>
  A literal under \<^verbatim>\<open>re.IGNORECASE\<close> (the pattern letters are lower case in the source): a letter
  matches itself and its upper case; \<^verbatim>\<open>s\<close>, \<^verbatim>\<open>i\<close> and \<^verbatim>\<open>k\<close> also match the non-ASCII characters
  that \<^verbatim>\<open>re\<close> treats as their case variants (U+017F; U+0130, U+0131; U+212A).
\<close>

definition lit_matches :: "nat \<Rightarrow> nat \<Rightarrow> bool" where
  "lit_matches c x \<longleftrightarrow>
     x = c \<or> (97 \<le> c \<and> c \<le> 122 \<and> x + 32 = c) \<or> (c = 115 \<and> x = 0x17F) \<or>
     (c = 105 \<and> (x = 0x130 \<or> x = 0x131)) \<or> (c = 107 \<and> x = 0x212A)"

text \<open>
  A successful match is (matched text, text of the capture group, remaining input);
  \<open>consume\<close> records one matched character, inside the group when \<open>g\<close> holds.
\<close>

definition consume :: "nat \<Rightarrow> bool \<Rightarrow> (ustr \<times> ustr \<times> ustr) option \<Rightarrow> (ustr \<times> ustr \<times> ustr) option" where
  "consume x g r = (case r of None \<Rightarrow> None
                    | Some (w, grp, rest) \<Rightarrow> Some (x # w, if g then x # grp else grp, rest))"

fun match_here :: "item list \<Rightarrow> bool \<Rightarrow> ustr \<Rightarrow> (ustr \<times> ustr \<times> ustr) option" where
  "match_here [] g s = Some ([], [], s)"
| "match_here (GroupOpen # p) g s = match_here p True s"
| "match_here (GroupClose # p) g s = match_here p False s"
| "match_here (Lit c # p) g [] = None"
| "match_here (Lit c # p) g (x # s) =
     (if lit_matches c x then consume x g (match_here p g s) else None)"
| "match_here (OneOf P # p) g [] = None"
| "match_here (OneOf P # p) g (x # s) =
     (if P x then consume x g (match_here p g s) else None)"
| "match_here (OptLit c # p) g [] = match_here p g []"
| "match_here (OptLit c # p) g (x # s) =
     (if lit_matches c x
      then (case consume x g (match_here p g s) of
              Some r \<Rightarrow> Some r
            | None \<Rightarrow> match_here p g (x # s))
      else match_here p g (x # s))"
| "match_here (Plus P # p) g [] = None"
| "match_here (Plus P # p) g (x # s) =
     (if P x
      then (case consume x g (match_here (Plus P # p) g s) of
              Some r \<Rightarrow> Some r
            | None \<Rightarrow> consume x g (match_here p g s))
      else None)"

fun has_group :: "item list \<Rightarrow> bool" where
  "has_group [] = False"
| "has_group (GroupOpen # p) = True"
| "has_group (i # p) = has_group p"

text \<open>
  \<^verbatim>\<open>re.findall\<close>: scan left to right; at each position try the pattern; after a match of
  \<open>n\<close> characters the scan resumes \<open>n\<close> characters later (\<open>skip\<close> counts the characters of
  the last match still to pass). \<^verbatim>\<open>findall\<close> returns the group when the pattern has one and
  the whole match otherwise. Neither pattern of the source matches the empty string.
\<close>

fun findall_from :: "item list \<Rightarrow> nat \<Rightarrow> ustr \<Rightarrow> ustr list" where
  "findall_from p skip [] =
     (if skip = 0
      then (case match_here p False [] of
              Some (w, grp, rest) \<Rightarrow> [if has_group p then grp else w]
            | None \<Rightarrow> [])
      else [])"
| "findall_from p (Suc k) (x # s) = findall_from p k s"
| "findall_from p 0 (x # s) =
     (case match_here p False (x # s) of
        Some (w, grp, rest) \<Rightarrow> (if has_group p then grp else w) # findall_from p (length w - 1) s
      | None \<Rightarrow> findall_from p 0 s)"

definition findall :: "item list \<Rightarrow> ustr \<Rightarrow> ustr list" where
  "findall p text = findall_from p 0 text"

text \<open>\<^verbatim>\<open><(https?://[^|>]+\.wav)[|>]\<close>\<close>

definition SLACK_LINK_PATTERN :: "item list" where
  "SLACK_LINK_PATTERN =
     [Lit 60, GroupOpen, Lit 104, Lit 116, Lit 116, Lit 112, OptLit 115, Lit 58, Lit 47, Lit 47,
      Plus (\<lambda>c. c \<noteq> 124 \<and> c \<noteq> 62), Lit 46, Lit 119, Lit 97, Lit 118, GroupClose,
      OneOf (\<lambda>c. c = 124 \<or> c = 62)]"

text \<open>\<^verbatim>\<open>https?://[^\s<>|]+\.wav\<close>\<close>

definition WAV_URL_PATTERN :: "item list" where
  "WAV_URL_PATTERN =
     [Lit 104, Lit 116, Lit 116, Lit 112, OptLit 115, Lit 58, Lit 47, Lit 47,
      Plus (\<lambda>c. \<not> py_isspace c \<and> c \<noteq> 60 \<and> c \<noteq> 62 \<and> c \<noteq> 124),
      Lit 46, Lit 119, Lit 97, Lit 118]"

text \<open>The items \<^verbatim>\<open>\\.wav\<close> that both patterns contain.\<close>

definition dot_wav :: "item list" where
  "dot_wav = [Lit 46, Lit 119, Lit 97, Lit 118]"

definition extract_wav_urls :: "ustr \<Rightarrow> ustr list" where
  "extract_wav_urls text =
     (let slack_links = findall SLACK_LINK_PATTERN text
      in if slack_links \<noteq> [] then slack_links else findall WAV_URL_PATTERN text)"

text \<open>Lower-casing of the ASCII letters, to speak of \<^verbatim>\<open>.wav\<close> in any letter case.\<close>

definition ascii_lower :: "nat \<Rightarrow> nat" where
  "ascii_lower c = (if 65 \<le> c \<and> c \<le> 90 then c + 32 else c)"

section \<open>The world outside: files, HTTP, Slack, the language model\<close>

text \<open>
  The scripts act on the world only through library calls. The calls that the pipeline
  issues on the file system, over HTTP, to Slack, to the language model and to
  \<^verbatim>\<open>logger.exception\<close> are recorded, in order, in \<open>calls\<close>; \<open>fs\<close> holds the files on disk.
  Informational logging (\<^verbatim>\<open>logger.info\<close>, \<^verbatim>\<open>warning\<close>, \<^verbatim>\<open>debug\<close>) has no effect on control flow
  and is left out.
\<close>

datatype py_exception = PyException ustr

fun exc_str :: "py_exception \<Rightarrow> ustr" where
  "exc_str (PyException msg) = msg"

datatype call =
    NamedTemporaryFile ustr
  | RequestsGet ustr bool
  | OllamaGenerate ustr ustr
  | ReactionsAdd ustr ustr ustr
  | ReactionsRemove ustr ustr ustr
  | Say ustr ustr
  | Unlink ustr
  | LoggerException ustr
  | ConversationsHistory ustr nat

record world =
  fs :: "ustr \<rightharpoonup> nat list"
  calls :: "call list"

definition emit :: "call \<Rightarrow> world \<Rightarrow> world" where
  "emit c w = w\<lparr>calls := calls w @ [c]\<rparr>"

text \<open>
  What a library call returns is not decided by the scripts: every call is answered by an
  oracle, which sees the world at the moment of the call and either raises (\<open>Inl\<close>,
  \<open>Some\<close> exception) or returns. \<open>say\<close> is Bolt's \<^verbatim>\<open>say(text=..., thread_ts=...)\<close>; a
  \<open>web_client\<close> is Bolt's \<^verbatim>\<open>client\<close> with \<^verbatim>\<open>reactions_add\<close> and \<^verbatim>\<open>reactions_remove\<close>
  (\<^verbatim>\<open>channel\<close>, \<^verbatim>\<open>name\<close>, \<^verbatim>\<open>timestamp\<close>).
\<close>

type_synonym say_fn = "world \<Rightarrow> ustr \<Rightarrow> ustr \<Rightarrow> py_exception option"

record web_client =
  reactions_add :: "world \<Rightarrow> ustr \<Rightarrow> ustr \<Rightarrow> ustr \<Rightarrow> py_exception option"
  reactions_remove :: "world \<Rightarrow> ustr \<Rightarrow> ustr \<Rightarrow> ustr \<Rightarrow> py_exception option"

record response =
  status_code :: nat
  content :: "nat list"

record slack_file =
  f_name :: "ustr option"
  f_mimetype :: "ustr option"
  f_url_private_download :: "ustr option"
  f_url_private :: "ustr option"

text \<open>The \<^verbatim>\<open>event\<close> dict (and a message of \<^verbatim>\<open>conversations_history\<close>); a missing key is \<open>None\<close>.\<close>

record slack_event =
  ev_channel :: "ustr option"
  ev_user :: "ustr option"
  ev_text :: "ustr option"
  ev_ts :: "ustr option"
  ev_files :: "slack_file list option"

text \<open>
  \<open>new_temp\<close>: \<^verbatim>\<open>tempfile.NamedTemporaryFile(suffix=".wav", delete=False)\<close>, the path created;
  \<open>requests_get\<close>: \<^verbatim>\<open>requests.get(url, timeout=120)\<close>; \<open>http_error\<close>: the \<^verbatim>\<open>HTTPError\<close> that
  \<^verbatim>\<open>raise_for_status\<close> raises for a 4xx or 5xx response; \<open>os_unlink_fails\<close>: whether
  \<^verbatim>\<open>os.unlink(path)\<close> raises; \<open>ollama_generate\<close>: \<^verbatim>\<open>ollama.generate(model, prompt)["response"]\<close>.
\<close>

datatype recognition = Recognized ustr | UnknownValueError | OtherError py_exception

text \<open>
  The speech libraries: \<open>whisper_transcribe\<close> is
  \<^verbatim>\<open>whisper_model.transcribe(path, language="en", fp16=False).get("text")\<close> (\<open>None\<close>: no such
  key); \<open>from_wav\<close> is \<^verbatim>\<open>AudioSegment.from_wav(path)\<close> with audio of type \<open>'a\<close>; \<open>dBFS\<close> the
  clip's average loudness, a float of type \<open>'f\<close>, and \<open>minus_dB\<close> the float subtraction of an
  integer literal; \<open>split_on_silence\<close> takes the audio, \<^verbatim>\<open>min_silence_len\<close>, \<^verbatim>\<open>silence_thresh\<close>
  and \<^verbatim>\<open>keep_silence\<close>; \<open>recognize_google\<close> answers for one exported chunk: a text,
  \<^verbatim>\<open>sr.UnknownValueError\<close>, or any other exception. \<open>conversations_history\<close> is
  \<^verbatim>\<open>app.client.conversations_history(channel, limit).get("messages", [])\<close>.
\<close>

record ('a, 'f) env =
  new_temp :: "world \<Rightarrow> py_exception + ustr"
  requests_get :: "world \<Rightarrow> ustr \<Rightarrow> py_exception + response"
  http_error :: "response \<Rightarrow> py_exception"
  os_unlink_fails :: "world \<Rightarrow> ustr \<Rightarrow> bool"
  ollama_generate :: "world \<Rightarrow> ustr \<Rightarrow> ustr \<Rightarrow> py_exception + ustr"
  whisper_transcribe :: "world \<Rightarrow> ustr \<Rightarrow> py_exception + ustr option"
  conversations_history :: "world \<Rightarrow> ustr \<Rightarrow> nat \<Rightarrow> py_exception + slack_event list"
  from_wav :: "world \<Rightarrow> ustr \<Rightarrow> py_exception + 'a"
  dBFS :: "'a \<Rightarrow> 'f"
  minus_dB :: "'f \<Rightarrow> int \<Rightarrow> 'f"
  split_on_silence :: "'a \<Rightarrow> nat \<Rightarrow> 'f \<Rightarrow> nat \<Rightarrow> 'a list"
  recognize_google :: "'a \<Rightarrow> recognition"

text \<open>
  The module-level configuration. \<^verbatim>\<open>ANALYZE_ONLY\<close> exists in \<^verbatim>\<open>qa_bot.py\<close> only, where the
  source sets it to \<^verbatim>\<open>True\<close>; \<^verbatim>\<open>QA_PROMPT_TEMPLATE\<close> is the text before and after
  \<^verbatim>\<open>{transcript}\<close>.
\<close>

record config =
  ANALYZE_ONLY :: bool
  QA_CHANNEL_ID :: ustr
  OLLAMA_MODEL :: ustr
  QA_PROMPT_TEMPLATE :: "ustr \<times> ustr"

definition default_str :: "ustr option \<Rightarrow> ustr \<Rightarrow> ustr" where
  "default_str v d = (case v of None \<Rightarrow> d | Some x \<Rightarrow> x)"

definition raise_for_status :: "('a, 'f) env \<Rightarrow> response \<Rightarrow> py_exception option" where
  "raise_for_status env resp =
     (if 400 \<le> status_code resp \<and> status_code resp < 600 then Some (http_error env resp) else None)"

text \<open>
  \<^verbatim>\<open>download_wav\<close> (\<^verbatim>\<open>qa_bot.py\<close>, no header) and \<^verbatim>\<open>download_slack_file\<close> (\<^verbatim>\<open>extra.py\<close>, bearer
  token): get, \<^verbatim>\<open>raise_for_status\<close>, write the body to \<open>dest_path\<close>.
\<close>

definition download :: "('a, 'f) env \<Rightarrow> bool \<Rightarrow> ustr \<Rightarrow> ustr \<Rightarrow> world \<Rightarrow> py_exception option \<times> world" where
  "download env auth url dest_path w =
     (let w1 = emit (RequestsGet url auth) w
      in case requests_get env w url of
           Inl e \<Rightarrow> (Some e, w1)
         | Inr resp \<Rightarrow>
             (case raise_for_status env resp of
                Some e \<Rightarrow> (Some e, w1)
              | None \<Rightarrow> (None, w1\<lparr>fs := (fs w1)(dest_path \<mapsto> content resp)\<rparr>)))"

definition download_wav :: "('a, 'f) env \<Rightarrow> ustr \<Rightarrow> ustr \<Rightarrow> world \<Rightarrow> py_exception option \<times> world" where
  "download_wav env url dest_path w = download env False url dest_path w"

definition download_slack_file :: "('a, 'f) env \<Rightarrow> ustr \<Rightarrow> ustr \<Rightarrow> world \<Rightarrow> py_exception option \<times> world" where
  "download_slack_file env url dest_path w = download env True url dest_path w"

text \<open>
  \<^verbatim>\<open>try: os.unlink(path) except Exception: pass\<close>: the call is made; the file is gone when it
  does not raise.
\<close>

definition unlink_quiet :: "('a, 'f) env \<Rightarrow> ustr \<Rightarrow> world \<Rightarrow> world" where
  "unlink_quiet env path w =
     (let w1 = emit (Unlink path) w
      in if os_unlink_fails env w path then w1 else w1\<lparr>fs := (fs w1)(path := None)\<rparr>)"

text \<open>
  \<^verbatim>\<open>analyze_transcript\<close>: \<^verbatim>\<open>QA_PROMPT_TEMPLATE.format(transcript=transcript)\<close>, the template
  given as the text before and after its one placeholder, then \<^verbatim>\<open>ollama.generate\<close>.
\<close>

definition analyze_transcript ::
  "('a, 'f) env \<Rightarrow> ustr \<Rightarrow> ustr \<times> ustr \<Rightarrow> ustr \<Rightarrow> world \<Rightarrow> (py_exception + ustr) \<times> world" where
  "analyze_transcript env model template transcript w =
     (let prompt = fst template @ transcript @ snd template
      in (ollama_generate env w model prompt, emit (OllamaGenerate model prompt) w))"

text \<open>
  \<^verbatim>\<open>try: client.reactions_add(...) except Exception: (pass or logger.warning)\<close>: the call is
  made and a failure changes nothing.
\<close>

definition add_reaction_quiet :: "web_client \<Rightarrow> ustr \<Rightarrow> ustr \<Rightarrow> ustr \<Rightarrow> world \<Rightarrow> world" where
  "add_reaction_quiet client channel name ts w =
     (case reactions_add client w channel name ts of
        None \<Rightarrow> emit (ReactionsAdd channel name ts) w
      | Some e \<Rightarrow> emit (ReactionsAdd channel name ts) w)"

definition remove_reaction_quiet :: "web_client \<Rightarrow> ustr \<Rightarrow> ustr \<Rightarrow> ustr \<Rightarrow> world \<Rightarrow> world" where
  "remove_reaction_quiet client channel name ts w =
     (case reactions_remove client w channel name ts of
        None \<Rightarrow> emit (ReactionsRemove channel name ts) w
      | Some e \<Rightarrow> emit (ReactionsRemove channel name ts) w)"

text \<open>The \<^verbatim>\<open>for emoji_name in grade_emojis\<close> loop.\<close>

fun react_all :: "web_client \<Rightarrow> ustr \<Rightarrow> ustr \<Rightarrow> ustr list \<Rightarrow> world \<Rightarrow> world" where
  "react_all client channel ts [] w = w"
| "react_all client channel ts (emoji_name # rest) w =
     react_all client channel ts rest (add_reaction_quiet client channel emoji_name ts w)"

text \<open>
  The reply of both scripts:
  \<^verbatim>\<open>f"*QA Analysis for* `{name}`\n\n*Transcript:*\n>>> {transcript[:1500]}{'...' if len(transcript) > 1500 else ''}\n\n*Assessment:*\n{analysis}"\<close>
\<close>

definition reply_text :: "ustr \<Rightarrow> ustr \<Rightarrow> ustr \<Rightarrow> ustr" where
  "reply_text name transcript analysis =
     str ''*QA Analysis for* `'' @ name @ str ''`\<newline>\<newline>*Transcript:*\<newline>>>> '' @
     take 1500 transcript @ (if length transcript > 1500 then str ''...'' else []) @
     str ''\<newline>\<newline>*Assessment:*\<newline>'' @ analysis"

definition say_call :: "say_fn \<Rightarrow> ustr \<Rightarrow> ustr \<Rightarrow> world \<Rightarrow> py_exception option \<times> world" where
  "say_call say text thread_ts w = (say w text thread_ts, emit (Say text thread_ts) w)"

section \<open>The chunked transcriber (\<^verbatim>\<open>transcribe_wav\<close> in \<^verbatim>\<open>extra.py\<close>, \<^verbatim>\<open>analyze_dialogue\<close> in \<^verbatim>\<open>main.py\<close>)\<close>

text \<open>
  The loop over \<^verbatim>\<open>speech_chunks\<close> of \<^verbatim>\<open>extra.py\<close>: a recognised text is appended to
  \<^verbatim>\<open>transcript_parts\<close>, \<^verbatim>\<open>sr.UnknownValueError\<close> is caught and the chunk skipped, any other
  exception leaves the function.
\<close>

fun recognize_chunks :: "('a, 'f) env \<Rightarrow> 'a list \<Rightarrow> ustr list \<Rightarrow> py_exception + ustr list" where
  "recognize_chunks env [] transcript_parts = Inr transcript_parts"
| "recognize_chunks env (chunk # rest) transcript_parts =
     (case recognize_google env chunk of
        Recognized text \<Rightarrow> recognize_chunks env rest (transcript_parts @ [text])
      | UnknownValueError \<Rightarrow> recognize_chunks env rest transcript_parts
      | OtherError e \<Rightarrow> Inl e)"

definition transcribe_wav :: "('a, 'f) env \<Rightarrow> world \<Rightarrow> ustr \<Rightarrow> py_exception + ustr" where
  "transcribe_wav env w wav_path =
     (case from_wav env w wav_path of
        Inl e \<Rightarrow> Inl e
      | Inr audio \<Rightarrow>
          (let speech_chunks = split_on_silence env audio 500 (minus_dB env (dBFS env audio) 14) 250
           in case recognize_chunks env speech_chunks [] of
                Inl e \<Rightarrow> Inl e
              | Inr transcript_parts \<Rightarrow> Inr (py_strip (py_join (str '' '') transcript_parts))))"

text \<open>
  \<^verbatim>\<open>main.py\<close> builds the transcript by \<^verbatim>\<open>full_transcript += chunk_text + " "\<close> and strips it
  after the loop; this is \<^verbatim>\<open>analyze_dialogue\<close> up to \<^verbatim>\<open>full_transcript.strip()\<close>.
\<close>

fun concat_chunks :: "('a, 'f) env \<Rightarrow> 'a list \<Rightarrow> ustr \<Rightarrow> py_exception + ustr" where
  "concat_chunks env [] full_transcript = Inr full_transcript"
| "concat_chunks env (chunk # rest) full_transcript =
     (case recognize_google env chunk of
        Recognized chunk_text \<Rightarrow> concat_chunks env rest (full_transcript @ chunk_text @ str '' '')
      | UnknownValueError \<Rightarrow> concat_chunks env rest full_transcript
      | OtherError e \<Rightarrow> Inl e)"

definition analyze_dialogue_transcript :: "('a, 'f) env \<Rightarrow> world \<Rightarrow> ustr \<Rightarrow> py_exception + ustr" where
  "analyze_dialogue_transcript env w wav_file_path =
     (case from_wav env w wav_file_path of
        Inl e \<Rightarrow> Inl e
      | Inr audio \<Rightarrow>
          (let speech_chunks = split_on_silence env audio 500 (minus_dB env (dBFS env audio) 14) 250
           in case concat_chunks env speech_chunks [] of
                Inl e \<Rightarrow> Inl e
              | Inr full_transcript \<Rightarrow> Inr (py_strip full_transcript)))"

text \<open>The texts of the chunks that the recogniser recognises, in chunk order.\<close>

fun recognized_texts :: "('a, 'f) env \<Rightarrow> 'a list \<Rightarrow> ustr list" where
  "recognized_texts env [] = []"
| "recognized_texts env (chunk # rest) =
     (case recognize_google env chunk of
        Recognized text \<Rightarrow> text # recognized_texts env rest
      | UnknownValueError \<Rightarrow> recognized_texts env rest
      | OtherError e \<Rightarrow> recognized_texts env rest)"

text \<open>No chunk makes the recogniser raise anything but \<^verbatim>\<open>sr.UnknownValueError\<close>.\<close>

fun no_other_error :: "('a, 'f) env \<Rightarrow> 'a list \<Rightarrow> bool" where
  "no_other_error env [] = True"
| "no_other_error env (chunk # rest) =
     (case recognize_google env chunk of
        OtherError e \<Rightarrow> False
      | Recognized text \<Rightarrow> no_other_error env rest
      | UnknownValueError \<Rightarrow> no_other_error env rest)"

section \<open>The URL pipeline (\<^verbatim>\<open>qa_bot.py\<close>)\<close>

text \<open>\<^verbatim>\<open>transcribe_wav\<close> of \<^verbatim>\<open>qa_bot.py\<close>: \<^verbatim>\<open>result.get("text", "").strip()\<close>.\<close>

definition transcribe_wav_whisper :: "('a, 'f) env \<Rightarrow> world \<Rightarrow> ustr \<Rightarrow> py_exception + ustr" where
  "transcribe_wav_whisper env w wav_path =
     (case whisper_transcribe env w wav_path of
        Inl e \<Rightarrow> Inl e
      | Inr result \<Rightarrow> Inr (py_strip (default_str result [])))"

definition no_speech_detected :: ustr where
  "no_speech_detected = [0x274C] @ str '' No speech detected''"

text \<open>\<^verbatim>\<open>wav_url.split("/")[-1] if "/" in wav_url else wav_url\<close>\<close>

definition short_url :: "ustr \<Rightarrow> ustr" where
  "short_url wav_url =
     (if 47 \<in> set wav_url then rev (takeWhile (\<lambda>c. c \<noteq> 47) (rev wav_url)) else wav_url)"

text \<open>
  The \<^verbatim>\<open>try\<close> block of \<^verbatim>\<open>process_wav_url\<close>, in three parts that follow the source from the
  bottom up. \<open>say\<close> and \<open>client\<close> are \<open>None\<close> as in Python when the caller passes none.
  Each part gives the value returned or the exception raised, and the world.

  First the part after \<^verbatim>\<open>analysis = analyze_transcript(transcript)\<close>: the grades, and in
  production mode the reactions and the reply.
\<close>

definition process_wav_url_emit ::
  "config \<Rightarrow> ustr \<Rightarrow> ustr \<Rightarrow> ustr \<Rightarrow> say_fn option \<Rightarrow> web_client option \<Rightarrow> ustr \<Rightarrow> ustr \<Rightarrow> world
   \<Rightarrow> (py_exception + ustr) \<times> world" where
  "process_wav_url_emit cfg wav_url message_ts channel say client transcript analysis w =
     (let grade_emojis = extract_grade_emojis GRADE_EMOJI_MAP_qa_bot analysis
      in if \<not> ANALYZE_ONLY cfg \<and> client \<noteq> None \<and> say \<noteq> None \<and> message_ts \<noteq> [] \<and> channel \<noteq> []
         then
           (let w1 = react_all (the client) channel message_ts grade_emojis w
            in case say_call (the say) (reply_text (short_url wav_url) transcript analysis)
                      message_ts w1 of
                 (Some e, w2) \<Rightarrow> (Inl e, w2)
               | (None, w2) \<Rightarrow> (Inr analysis, w2))
         else (Inr analysis, w))"

text \<open>
  The part after \<^verbatim>\<open>transcript = transcribe_wav(tmp_path)\<close>: the usability test
  \<^verbatim>\<open>if not transcript or len(transcript.strip()) < 10\<close> with its marker reaction and early
  return, else the analysis.
\<close>

definition process_wav_url_transcribed ::
  "config \<Rightarrow> ('a, 'f) env \<Rightarrow> ustr \<Rightarrow> ustr \<Rightarrow> ustr \<Rightarrow> say_fn option \<Rightarrow> web_client option \<Rightarrow> ustr \<Rightarrow> world
   \<Rightarrow> (py_exception + ustr) \<times> world" where
  "process_wav_url_transcribed cfg env wav_url message_ts channel say client transcript w =
     (if transcript = [] \<or> length (py_strip transcript) < 10
      then (Inr no_speech_detected,
            if \<not> ANALYZE_ONLY cfg \<and> client \<noteq> None \<and> message_ts \<noteq> [] \<and> channel \<noteq> []
            then add_reaction_quiet (the client) channel (str ''x'') message_ts w
            else w)
      else
        (case analyze_transcript env (OLLAMA_MODEL cfg) (QA_PROMPT_TEMPLATE cfg) transcript w of
           (Inl e, w1) \<Rightarrow> (Inl e, w1)
         | (Inr analysis, w1) \<Rightarrow>
             process_wav_url_emit cfg wav_url message_ts channel say client transcript analysis w1))"

text \<open>
  The whole block: temporary file, download, transcription, then the part above. The
  second component is the value of \<^verbatim>\<open>tmp_path\<close> when the block is left.
\<close>

definition create_temp :: "ustr \<Rightarrow> world \<Rightarrow> world" where
  "create_temp tmp_path w = (emit (NamedTemporaryFile tmp_path) w)\<lparr>fs := (fs w)(tmp_path \<mapsto> [])\<rparr>"

definition process_wav_url_try ::
  "config \<Rightarrow> ('a, 'f) env \<Rightarrow> ustr \<Rightarrow> ustr \<Rightarrow> ustr \<Rightarrow> say_fn option \<Rightarrow> web_client option \<Rightarrow> world
   \<Rightarrow> (py_exception + ustr) \<times> ustr option \<times> world" where
  "process_wav_url_try cfg env wav_url message_ts channel say client w =
     (case new_temp env w of
        Inl e \<Rightarrow> (Inl e, None, w)
      | Inr tmp_path \<Rightarrow>
          (case download_wav env wav_url tmp_path (create_temp tmp_path w) of
             (Some e, w2) \<Rightarrow> (Inl e, Some tmp_path, w2)
           | (None, w2) \<Rightarrow>
               (case transcribe_wav_whisper env w2 tmp_path of
                  Inl e \<Rightarrow> (Inl e, Some tmp_path, w2)
                | Inr transcript \<Rightarrow>
                    (case process_wav_url_transcribed cfg env wav_url message_ts channel say client
                            transcript w2 of
                       (r, w3) \<Rightarrow> (r, Some tmp_path, w3)))))"

definition error_processing :: "ustr \<Rightarrow> py_exception \<Rightarrow> ustr" where
  "error_processing wav_url e =
     str ''  '' @ [0x274C] @ str '' Error processing '' @ wav_url @ str '': '' @ exc_str e"

text \<open>
  \<^verbatim>\<open>process_wav_url\<close>: the \<^verbatim>\<open>try\<close> block, then \<^verbatim>\<open>except Exception\<close> (\<^verbatim>\<open>logger.exception\<close>,
  \<^verbatim>\<open>return None\<close>), then \<^verbatim>\<open>finally\<close> (\<^verbatim>\<open>if tmp_path:\<close> unlink, errors ignored).
\<close>

definition process_wav_url ::
  "config \<Rightarrow> ('a, 'f) env \<Rightarrow> ustr \<Rightarrow> ustr \<Rightarrow> ustr \<Rightarrow> say_fn option \<Rightarrow> web_client option \<Rightarrow> world
   \<Rightarrow> ustr option \<times> world" where
  "process_wav_url cfg env wav_url message_ts channel say client w =
     (case process_wav_url_try cfg env wav_url message_ts channel say client w of
        (r, tmp_path, w1) \<Rightarrow>
          (let (ret, w2) =
                 (case r of
                    Inr v \<Rightarrow> (Some v, w1)
                  | Inl e \<Rightarrow>
                      (None, emit (LoggerException (error_processing wav_url e)) w1));
               w3 = (case tmp_path of
                       None \<Rightarrow> w2
                     | Some p \<Rightarrow> if p \<noteq> [] then unlink_quiet env p w2 else w2)
           in (ret, w3)))"

text \<open>\<^verbatim>\<open>handle_message\<close> of \<^verbatim>\<open>qa_bot.py\<close>; Bolt passes \<open>say\<close> and \<open>client\<close>.\<close>

definition handle_message_qa ::
  "config \<Rightarrow> ('a, 'f) env \<Rightarrow> slack_event \<Rightarrow> say_fn \<Rightarrow> web_client \<Rightarrow> world \<Rightarrow> world" where
  "handle_message_qa cfg env event say client w =
     (let channel = default_str (ev_channel event) [];
          text = default_str (ev_text event) [];
          ts = default_str (ev_ts event) []
      in if QA_CHANNEL_ID cfg \<noteq> [] \<and> channel \<noteq> QA_CHANNEL_ID cfg then w
         else (case extract_wav_urls text of
                 [] \<Rightarrow> w
               | first_url # more_urls \<Rightarrow>
                   snd (process_wav_url cfg env first_url ts channel (Some say) (Some client) w)))"

text \<open>
  \<^verbatim>\<open>process_latest_message\<close>: the loop over the fetched messages stops at the first one
  whose text holds a URL; \<^verbatim>\<open>process_wav_url\<close> is called without \<open>say\<close> and \<open>client\<close>.
\<close>

fun latest_loop :: "config \<Rightarrow> ('a, 'f) env \<Rightarrow> ustr \<Rightarrow> slack_event list \<Rightarrow> world \<Rightarrow> world" where
  "latest_loop cfg env channel_id [] w = w"
| "latest_loop cfg env channel_id (msg # rest) w =
     (case extract_wav_urls (default_str (ev_text msg) []) of
        [] \<Rightarrow> latest_loop cfg env channel_id rest w
      | first_url # more_urls \<Rightarrow>
          snd (process_wav_url cfg env first_url (default_str (ev_ts msg) []) channel_id None None w))"

definition process_latest_message :: "config \<Rightarrow> ('a, 'f) env \<Rightarrow> ustr \<Rightarrow> world \<Rightarrow> world" where
  "process_latest_message cfg env channel_id w =
     (let w1 = emit (ConversationsHistory channel_id 20) w
      in case conversations_history env w channel_id 20 of
           Inl e \<Rightarrow> w1
         | Inr messages \<Rightarrow> latest_loop cfg env channel_id messages w1)"

section \<open>The file-upload pipeline (\<^verbatim>\<open>handle_message\<close> in \<^verbatim>\<open>extra.py\<close>)\<close>

definition endswith :: "ustr \<Rightarrow> ustr \<Rightarrow> bool" where
  "endswith s suffix \<longleftrightarrow> length suffix \<le> length s \<and> drop (length s - length suffix) s = suffix"

text \<open>
  The filter \<^verbatim>\<open>f.get("name", "").lower().endswith(".wav") or f.get("mimetype", "") == "audio/wav"\<close>.
  \<^verbatim>\<open>lower()\<close> is taken on the ASCII letters: no other code point is mapped onto one of the
  four characters of the suffix.
\<close>

definition is_wav_file :: "slack_file \<Rightarrow> bool" where
  "is_wav_file f \<longleftrightarrow>
     endswith (map ascii_lower (default_str (f_name f) [])) (str ''.wav'') \<or>
     default_str (f_mimetype f) [] = str ''audio/wav''"

text \<open>\<^verbatim>\<open>a or b\<close> on two optional strings: \<open>a\<close> when it is neither \<^verbatim>\<open>None\<close> nor empty.\<close>

definition py_or :: "ustr option \<Rightarrow> ustr option \<Rightarrow> ustr option" where
  "py_or a b = (case a of None \<Rightarrow> b | Some x \<Rightarrow> if x \<noteq> [] then a else b)"

definition hourglass :: ustr where
  "hourglass = str ''hourglass_flowing_sand''"

definition could_not_transcribe :: "ustr \<Rightarrow> ustr" where
  "could_not_transcribe filename =
     [0x26A0, 0xFE0F] @ str '' Could not transcribe any speech from `'' @ filename @ str ''`.''"

definition error_analyzing :: "ustr \<Rightarrow> py_exception \<Rightarrow> ustr" where
  "error_analyzing filename e =
     [0x274C] @ str '' Error analyzing `'' @ filename @ str ''`: '' @ exc_str e"

definition error_logged :: "ustr \<Rightarrow> py_exception \<Rightarrow> ustr" where
  "error_logged filename e = str ''Error processing '' @ filename @ str '': '' @ exc_str e"

text \<open>
  The \<^verbatim>\<open>try\<close> block for one file, in three parts as above; each part gives the exception
  that leaves it, if any, and the world. First steps 4 and 5 of the source: the grade
  reactions and the threaded reply.
\<close>

definition extra_emit ::
  "say_fn \<Rightarrow> web_client \<Rightarrow> ustr \<Rightarrow> ustr \<Rightarrow> ustr \<Rightarrow> ustr \<Rightarrow> ustr \<Rightarrow> world \<Rightarrow> py_exception option \<times> world" where
  "extra_emit say client channel ts filename transcript analysis w =
     (let grade_emojis = extract_grade_emojis GRADE_EMOJI_MAP_extra analysis;
          w1 = react_all client channel ts grade_emojis w
      in say_call say (reply_text filename transcript analysis) ts w1)"

text \<open>
  The part after \<^verbatim>\<open>transcript = transcribe_wav(tmp_path)\<close>: \<^verbatim>\<open>if not transcript\<close> the notice and
  \<^verbatim>\<open>continue\<close> (which leaves the block without an exception), else the analysis.
\<close>

definition extra_transcribed ::
  "config \<Rightarrow> ('a, 'f) env \<Rightarrow> say_fn \<Rightarrow> web_client \<Rightarrow> ustr \<Rightarrow> ustr \<Rightarrow> ustr \<Rightarrow> ustr \<Rightarrow> world
   \<Rightarrow> py_exception option \<times> world" where
  "extra_transcribed cfg env say client channel ts filename transcript w =
     (if transcript = []
      then say_call say (could_not_transcribe filename) ts w
      else
        (case analyze_transcript env (OLLAMA_MODEL cfg) (QA_PROMPT_TEMPLATE cfg) transcript w of
           (Inl e, w1) \<Rightarrow> (Some e, w1)
         | (Inr analysis, w1) \<Rightarrow> extra_emit say client channel ts filename transcript analysis w1))"

text \<open>
  The whole block. The second component is the value of the variable \<^verbatim>\<open>tmp_path\<close>
  afterwards; \<open>tmp_path0\<close> is its value before (unbound in the first iteration, the
  previous file's path later).
\<close>

definition extra_try ::
  "config \<Rightarrow> ('a, 'f) env \<Rightarrow> say_fn \<Rightarrow> web_client \<Rightarrow> ustr \<Rightarrow> ustr \<Rightarrow> ustr \<Rightarrow> ustr \<Rightarrow> ustr option \<Rightarrow> world
   \<Rightarrow> py_exception option \<times> ustr option \<times> world" where
  "extra_try cfg env say client channel ts filename download_url tmp_path0 w =
     (case new_temp env w of
        Inl e \<Rightarrow> (Some e, tmp_path0, w)
      | Inr tmp_path \<Rightarrow>
          (case download_slack_file env download_url tmp_path (create_temp tmp_path w) of
             (Some e, w2) \<Rightarrow> (Some e, Some tmp_path, w2)
           | (None, w2) \<Rightarrow>
               (case transcribe_wav env w2 tmp_path of
                  Inl e \<Rightarrow> (Some e, Some tmp_path, w2)
                | Inr transcript \<Rightarrow>
                    (case extra_transcribed cfg env say client channel ts filename transcript w2 of
                       (r, w3) \<Rightarrow> (r, Some tmp_path, w3)))))"

text \<open>
  One iteration of the loop over \<^verbatim>\<open>wav_files\<close>, for a file with a download URL: the hourglass
  reaction, the \<^verbatim>\<open>try\<close> block, \<^verbatim>\<open>except Exception\<close> (\<^verbatim>\<open>logger.exception\<close>, then \<^verbatim>\<open>say\<close> with the
  error notice), \<^verbatim>\<open>finally\<close> (unlink \<^verbatim>\<open>tmp_path\<close>, remove the hourglass; errors ignored, among
  them the \<^verbatim>\<open>NameError\<close> of an unbound \<^verbatim>\<open>tmp_path\<close>). The first component is the exception
  that leaves the iteration: only the \<^verbatim>\<open>say\<close> of the \<^verbatim>\<open>except\<close> block can raise it.
\<close>

definition extra_run ::
  "config \<Rightarrow> ('a, 'f) env \<Rightarrow> say_fn \<Rightarrow> web_client \<Rightarrow> ustr \<Rightarrow> ustr \<Rightarrow> ustr \<Rightarrow> ustr \<Rightarrow> ustr option \<Rightarrow> world
   \<Rightarrow> py_exception option \<times> ustr option \<times> world" where
  "extra_run cfg env say client channel ts filename download_url tmp_path0 w =
     (let w1 = add_reaction_quiet client channel hourglass ts w
      in case extra_try cfg env say client channel ts filename download_url tmp_path0 w1 of
           (r, tmp_path, w2) \<Rightarrow>
             (let (raised, w3) =
                    (case r of
                       None \<Rightarrow> (None, w2)
                     | Some e \<Rightarrow>
                         say_call say (error_analyzing filename e) ts
                           (emit (LoggerException (error_logged filename e)) w2));
                  w4 = (case tmp_path of None \<Rightarrow> w3 | Some p \<Rightarrow> unlink_quiet env p w3);
                  w5 = remove_reaction_quiet client channel hourglass ts w4
              in (raised, tmp_path, w5)))"

text \<open>
  The loop \<^verbatim>\<open>for file_info in wav_files\<close>; a file without a download URL is skipped; an
  exception that leaves an iteration leaves the handler.
\<close>

fun process_files ::
  "config \<Rightarrow> ('a, 'f) env \<Rightarrow> say_fn \<Rightarrow> web_client \<Rightarrow> ustr \<Rightarrow> ustr \<Rightarrow> slack_file list \<Rightarrow> ustr option \<Rightarrow> world
   \<Rightarrow> py_exception option \<times> world" where
  "process_files cfg env say client channel ts [] tmp_path w = (None, w)"
| "process_files cfg env say client channel ts (file_info # rest) tmp_path w =
     (let filename = default_str (f_name file_info) (str ''unknown.wav'');
          download_url = py_or (f_url_private_download file_info) (f_url_private file_info)
      in if download_url = None \<or> download_url = Some []
         then process_files cfg env say client channel ts rest tmp_path w
         else (case extra_run cfg env say client channel ts filename (the download_url) tmp_path w of
                 (Some e, tmp_path1, w1) \<Rightarrow> (Some e, w1)
               | (None, tmp_path1, w1) \<Rightarrow> process_files cfg env say client channel ts rest tmp_path1 w1))"

definition handle_message_extra ::
  "config \<Rightarrow> ('a, 'f) env \<Rightarrow> slack_event \<Rightarrow> say_fn \<Rightarrow> web_client \<Rightarrow> world \<Rightarrow> py_exception option \<times> world" where
  "handle_message_extra cfg env event say client w =
     (let channel = default_str (ev_channel event) [];
          ts = default_str (ev_ts event) [];
          files = (case ev_files event of None \<Rightarrow> [] | Some fl \<Rightarrow> fl)
      in if QA_CHANNEL_ID cfg \<noteq> [] \<and> channel \<noteq> QA_CHANNEL_ID cfg then (None, w)
         else (let wav_files = filter is_wav_file files
               in if wav_files = [] then (None, w)
                  else process_files cfg env say client channel ts wav_files None w))"

section \<open>How far a run gets\<close>

text \<open>
  The transcript of a run, with the path of its temporary file: the temporary file was
  created, the download raised nothing and the transcriber returned the text. \<open>None\<close>
  when one of them raised.
\<close>

definition qa_transcript :: "('a, 'f) env \<Rightarrow> ustr \<Rightarrow> world \<Rightarrow> (ustr \<times> ustr) option" where
  "qa_transcript env wav_url w =
     (case new_temp env w of
        Inl x \<Rightarrow> None
      | Inr tmp_path \<Rightarrow>
          (case download_wav env wav_url tmp_path (create_temp tmp_path w) of
             (Some x, w2) \<Rightarrow> None
           | (None, w2) \<Rightarrow>
               (case transcribe_wav_whisper env w2 tmp_path of
                  Inl x \<Rightarrow> None
                | Inr transcript \<Rightarrow> Some (tmp_path, transcript))))"

definition extra_transcript :: "('a, 'f) env \<Rightarrow> ustr \<Rightarrow> world \<Rightarrow> (ustr \<times> ustr) option" where
  "extra_transcript env download_url w =
     (case new_temp env w of
        Inl x \<Rightarrow> None
      | Inr tmp_path \<Rightarrow>
          (case download_slack_file env download_url tmp_path (create_temp tmp_path w) of
             (Some x, w2) \<Rightarrow> None
           | (None, w2) \<Rightarrow>
               (case transcribe_wav env w2 tmp_path of
                  Inl x \<Rightarrow> None
                | Inr transcript \<Rightarrow> Some (tmp_path, transcript))))"

text \<open>
  An exception \<open>e\<close> raised during the download, the transcription or the analysis of a run:
  the temporary file was created and then the download raises \<open>e\<close>, or the transcriber
  does, or the transcript goes to the model and \<^verbatim>\<open>analyze_transcript\<close> raises \<open>e\<close>.
\<close>

definition qa_stage_raises :: "config \<Rightarrow> ('a, 'f) env \<Rightarrow> ustr \<Rightarrow> world \<Rightarrow> py_exception \<Rightarrow> bool" where
  "qa_stage_raises cfg env wav_url w e =
     (case new_temp env w of
        Inl x \<Rightarrow> False
      | Inr tmp_path \<Rightarrow>
          (case download_wav env wav_url tmp_path (create_temp tmp_path w) of
             (Some x, w2) \<Rightarrow> x = e
           | (None, w2) \<Rightarrow>
               (case transcribe_wav_whisper env w2 tmp_path of
                  Inl x \<Rightarrow> x = e
                | Inr transcript \<Rightarrow>
                    \<not> (transcript = [] \<or> length (py_strip transcript) < 10) \<and>
                    fst (analyze_transcript env (OLLAMA_MODEL cfg) (QA_PROMPT_TEMPLATE cfg)
                           transcript w2) = Inl e)))"

definition extra_stage_raises :: "config \<Rightarrow> ('a, 'f) env \<Rightarrow> ustr \<Rightarrow> world \<Rightarrow> py_exception \<Rightarrow> bool" where
  "extra_stage_raises cfg env download_url w e =
     (case new_temp env w of
        Inl x \<Rightarrow> False
      | Inr tmp_path \<Rightarrow>
          (case download_slack_file env download_url tmp_path (create_temp tmp_path w) of
             (Some x, w2) \<Rightarrow> x = e
           | (None, w2) \<Rightarrow>
               (case transcribe_wav env w2 tmp_path of
                  Inl x \<Rightarrow> x = e
                | Inr transcript \<Rightarrow>
                    transcript \<noteq> [] \<and>
                    fst (analyze_transcript env (OLLAMA_MODEL cfg) (QA_PROMPT_TEMPLATE cfg)
                           transcript w2) = Inl e)))"


section \<open>Reading the record of calls\<close>

fun is_say :: "call \<Rightarrow> bool" where
  "is_say (Say text thread_ts) = True"
| "is_say c = False"

fun is_reactions_add :: "call \<Rightarrow> bool" where
  "is_reactions_add (ReactionsAdd channel name ts) = True"
| "is_reactions_add c = False"

fun is_generate :: "call \<Rightarrow> bool" where
  "is_generate (OllamaGenerate model prompt) = True"
| "is_generate c = False"

fun is_get :: "call \<Rightarrow> bool" where
  "is_get (RequestsGet url auth) = True"
| "is_get c = False"

fun is_new_temp :: "call \<Rightarrow> bool" where
  "is_new_temp (NamedTemporaryFile path) = True"
| "is_new_temp c = False"

text \<open>The calls that an operation added to the record \<open>before\<close> it.\<close>

definition new_calls :: "world \<Rightarrow> world \<Rightarrow> call list" where
  "new_calls before after = drop (length (calls before)) (calls after)"

section \<open>Stub collaborators for concrete runs\<close>

text \<open>
  A world with no files and no calls, a \<open>say\<close> and a \<open>client\<close> that never raise, and an
  environment in which every call succeeds: the download returns status 200, Whisper
  hears one sentence, the recogniser understands the first and third of three chunks and
  the model answers with a yellow heart. Audio clips are numbers, loudness is an integer.
\<close>

definition world0 :: world where
  "world0 = \<lparr>fs = Map.empty, calls = []\<rparr>"

definition say_ok :: say_fn where
  "say_ok w text thread_ts = None"

definition client_ok :: web_client where
  "client_ok = \<lparr>reactions_add = (\<lambda>w channel name ts. None),
                 reactions_remove = (\<lambda>w channel name ts. None)\<rparr>"

definition env_ok :: "(nat, int) env" where
  "env_ok =
     \<lparr>new_temp = (\<lambda>w. Inr (str ''/tmp/t.wav'')),
      requests_get = (\<lambda>w url. Inr \<lparr>status_code = 200, content = [82, 73, 70, 70]\<rparr>),
      http_error = (\<lambda>resp. PyException (str ''HTTPError'')),
      os_unlink_fails = (\<lambda>w path. False),
      ollama_generate = (\<lambda>w model prompt. Inr ([0x1F49B] @ str '' Agent was polite.'')),
      whisper_transcribe = (\<lambda>w path. Inr (Some (str '' thank you for calling ''))),
      conversations_history = (\<lambda>w channel limit. Inr []),
      from_wav = (\<lambda>w path. Inr 0),
      dBFS = (\<lambda>audio. - 20),
      minus_dB = (\<lambda>x n. x - n),
      split_on_silence = (\<lambda>audio min_silence_len silence_thresh keep_silence. [1, 2, 3]),
      recognize_google = (\<lambda>chunk. if chunk = 2 then UnknownValueError
                                  else if chunk = 1 then Recognized (str ''thank you'')
                                  else Recognized (str ''for calling''))\<rparr>"

definition config_source :: config where
  "config_source = \<lparr>ANALYZE_ONLY = True, QA_CHANNEL_ID = [], OLLAMA_MODEL = str ''llama'',
                     QA_PROMPT_TEMPLATE = (str ''TRANSCRIPT: '', str '' GRADE:'')\<rparr>"

definition config_production :: config where
  "config_production = config_source\<lparr>ANALYZE_ONLY := False\<rparr>"

text \<open>Variants: one call behaves differently, the rest as in \<open>env_ok\<close>.\<close>

definition env_download_fails :: "(nat, int) env" where
  "env_download_fails = env_ok\<lparr>requests_get := (\<lambda>w url. Inl (PyException (str ''timed out'')))\<rparr>"

definition env_silent :: "(nat, int) env" where
  "env_silent = env_ok\<lparr>whisper_transcribe := (\<lambda>w path. Inr (Some [])),
                        split_on_silence := (\<lambda>audio min_silence_len silence_thresh keep_silence. [])\<rparr>"

definition env_short :: "(nat, int) env" where
  "env_short = env_ok\<lparr>whisper_transcribe := (\<lambda>w path. Inr (Some (str ''hi''))),
                       split_on_silence := (\<lambda>audio min_silence_len silence_thresh keep_silence. [4]),
                       recognize_google := (\<lambda>chunk. Recognized (str ''hi''))\<rparr>"

definition env_no_glyph :: "(nat, int) env" where
  "env_no_glyph = env_ok\<lparr>ollama_generate := (\<lambda>w model prompt. Inr (str ''The call was fine.''))\<rparr>"

definition env_model_fails :: "(nat, int) env" where
  "env_model_fails =
     env_ok\<lparr>ollama_generate := (\<lambda>w model prompt. Inl (PyException (str ''connection refused'')))\<rparr>"

definition event_two_urls :: slack_event where
  "event_two_urls = \<lparr>ev_channel = Some (str ''C0123ABCDEF''), ev_user = Some (str ''U1''),
                      ev_text = Some (str ''<https://h/a.wav|a.wav> and <https://h/b.wav|b.wav>''),
                      ev_ts = Some (str ''2.0''), ev_files = None\<rparr>"

definition event_chat :: slack_event where
  "event_chat = \<lparr>ev_channel = Some (str ''C0123ABCDEF''), ev_user = Some (str ''U2''),
                  ev_text = Some (str ''good morning''), ev_ts = Some (str ''3.0''), ev_files = None\<rparr>"

definition env_history :: "(nat, int) env" where
  "env_history = env_ok\<lparr>conversations_history := (\<lambda>w channel limit. Inr [event_chat, event_two_urls])\<rparr>"

section \<open>Substrings\<close>

lemma py_in_iff: "py_in g s \<longleftrightarrow> (\<exists>p q. s = p @ g @ q)"
proof (induction s)
  case Nil
  show ?case by auto
next
  case (Cons x xs)
  show ?case
  proof
    assume "py_in g (x # xs)"
    then consider "take (length g) (x # xs) = g" | "py_in g xs" by auto
    then show "\<exists>p q. x # xs = p @ g @ q"
    proof cases
      case 1
      then have "x # xs = [] @ g @ drop (length g) (x # xs)"
        by (metis append_Nil append_take_drop_id)
      then show ?thesis by blast
    next
      case 2
      then obtain p q where "xs = p @ g @ q" using Cons.IH by blast
      then have "x # xs = (x # p) @ g @ q" by simp
      then show ?thesis by blast
    qed
  next
    assume "\<exists>p q. x # xs = p @ g @ q"
    then obtain p q where pq: "x # xs = p @ g @ q" by blast
    show "py_in g (x # xs)"
    proof (cases p)
      case Nil
      then have "take (length g) (x # xs) = g" using pq by simp
      then show ?thesis by simp
    next
      case (Cons y p')
      then have "xs = p' @ g @ q" using pq by simp
      then have "py_in g xs" using Cons.IH by blast
      then show ?thesis by simp
    qed
  qed
qed


lemma py_in_take: "take (length g) s = g \<Longrightarrow> py_in g s"
  by (cases s) auto

lemma py_in_append: "py_in g a \<Longrightarrow> py_in g (a @ b)"
  unfolding py_in_iff by (metis append.assoc)

section \<open>The grade extractor\<close>

lemma extract_loop_filter:
  "extract_loop T a found = found @ map snd (filter (\<lambda>(icon, emoji_name). py_in icon a) T)"
  by (induction T a found rule: extract_loop.induct) auto

lemma extract_grade_emojis_filter:
  "extract_grade_emojis T a = map snd (filter (\<lambda>(icon, emoji_name). py_in icon a) T)"
  by (simp add: extract_grade_emojis_def extract_loop_filter)

lemma distinct_labels_qa_bot: "distinct (map snd GRADE_EMOJI_MAP_qa_bot)"
  by (simp add: GRADE_EMOJI_MAP_qa_bot_def str_def)

lemma distinct_labels_extra: "distinct (map snd GRADE_EMOJI_MAP_extra)"
  by (simp add: GRADE_EMOJI_MAP_extra_def str_def)

text \<open>
  C1. For both glyph tables and every analysis text, the labels returned are exactly the
  labels of the glyphs that occur in the text as a contiguous block, and no label is
  returned twice, however often its glyph occurs. Being a function of the text alone, the
  extractor returns the same list for the same text.
\<close>

theorem grade_set_exact:
  assumes "T = GRADE_EMOJI_MAP_qa_bot \<or> T = GRADE_EMOJI_MAP_extra"
  shows "set (extract_grade_emojis T a) = {l. \<exists>g p q. (g, l) \<in> set T \<and> a = p @ g @ q} \<and>
         distinct (extract_grade_emojis T a)"
proof
  show "set (extract_grade_emojis T a) = {l. \<exists>g p q. (g, l) \<in> set T \<and> a = p @ g @ q}"
  proof -
    have "set (extract_grade_emojis T a) = {l. \<exists>g. (g, l) \<in> set T \<and> py_in g a}"
      unfolding extract_grade_emojis_filter by force
    then show ?thesis by (simp add: py_in_iff)
  qed
  have "distinct (map snd T)"
    using assms distinct_labels_qa_bot distinct_labels_extra by blast
  then show "distinct (extract_grade_emojis T a)"
    unfolding extract_grade_emojis_filter by (rule distinct_map_filter)
qed

theorem grade_set_exact_witness:
  "(GRADE_EMOJI_MAP_qa_bot = GRADE_EMOJI_MAP_qa_bot \<or> GRADE_EMOJI_MAP_qa_bot = GRADE_EMOJI_MAP_extra) \<and>
   extract_grade_emojis GRADE_EMOJI_MAP_qa_bot ([0x1F49B] @ str '' polite '' @ [0x1F49B, 0x1F442]) =
     [str ''yellow_heart'', str ''ear_with_hearing_aid''] \<and>
   {l. \<exists>g p q. (g, l) \<in> set GRADE_EMOJI_MAP_qa_bot \<and> [0x1F49B] @ str '' polite '' @ [0x1F49B, 0x1F442] = p @ g @ q} =
     {str ''yellow_heart'', str ''ear_with_hearing_aid''}"
proof -
  have e: "extract_grade_emojis GRADE_EMOJI_MAP_qa_bot ([0x1F49B] @ str '' polite '' @ [0x1F49B, 0x1F442]) =
     [str ''yellow_heart'', str ''ear_with_hearing_aid'']"
    by (simp add: extract_grade_emojis_def GRADE_EMOJI_MAP_qa_bot_def str_def)
  from grade_set_exact[of GRADE_EMOJI_MAP_qa_bot "[0x1F49B] @ str '' polite '' @ [0x1F49B, 0x1F442]"]
  show ?thesis unfolding e by auto
qed

section \<open>URL extraction\<close>

lemma match_here_split:
  "match_here p g s = Some (w, grp, rest) \<Longrightarrow> s = w @ rest"
proof (induction p g s arbitrary: w grp rest rule: match_here.induct)
  case (9 c p g x s)
  then show ?case by (auto simp: consume_def split: if_splits option.splits)
next
  case (11 P p g x s)
  then show ?case by (auto simp: consume_def split: if_splits option.splits)
qed (auto simp: consume_def split: if_splits option.splits)

lemma match_dot_wav:
  assumes "match_here (dot_wav @ q) g s = Some (w, grp, rest)"
  shows "take 4 (map ascii_lower w) = str ''.wav''"
proof -
  obtain a b c d s' where s: "s = a # b # c # d # s'"
    using assms unfolding dot_wav_def
    by (cases s; simp split: if_splits; cases "tl s"; simp split: if_splits; cases "tl (tl s)"; simp split: if_splits; cases "tl (tl (tl s))"; simp add: consume_def split: if_splits)
  show ?thesis
    using assms unfolding dot_wav_def s
    by (auto simp: consume_def lit_matches_def ascii_lower_def str_def split: if_splits option.splits)
qed

lemma consume_Some:
  "consume x g r = Some (w, grp, rest) \<Longrightarrow> \<exists>w' grp'. r = Some (w', grp', rest) \<and> w = x # w'"
  by (auto simp: consume_def split: option.splits)

lemma match_has_wav:
  "match_here p g s = Some (w, grp, rest) \<Longrightarrow> \<exists>pre q. p = pre @ dot_wav @ q \<Longrightarrow>
   py_in (str ''.wav'') (map ascii_lower w)"
proof (induction p g s arbitrary: w grp rest rule: match_here.induct)
  case (1 g s)
  then show ?case by (simp add: dot_wav_def)
next
  case (2 p g s)
  from "2.prems"(2) obtain pre q where pq: "GroupOpen # p = pre @ dot_wav @ q" by blast
  then have "pre \<noteq> []" by (auto simp: dot_wav_def)
  then obtain pre' where "p = pre' @ dot_wav @ q" using pq by (cases pre) auto
  then show ?case using 2 by auto
next
  case (3 p g s)
  from "3.prems"(2) obtain pre q where pq: "GroupClose # p = pre @ dot_wav @ q" by blast
  then have "pre \<noteq> []" by (auto simp: dot_wav_def)
  then obtain pre' where "p = pre' @ dot_wav @ q" using pq by (cases pre) auto
  then show ?case using 3 by auto
next
  case (4 c p g)
  then show ?case by simp
next
  case (5 c p g x s)
  from "5.prems"(2) obtain pre q where pq: "Lit c # p = pre @ dot_wav @ q" by blast
  show ?case
  proof (cases pre)
    case Nil
    then have "match_here (dot_wav @ q) g (x # s) = Some (w, grp, rest)" using "5.prems"(1) pq by simp
    then have "take 4 (map ascii_lower w) = str ''.wav''" by (rule match_dot_wav)
    moreover have "length (str ''.wav'') = 4" by (simp add: str_def)
    ultimately show ?thesis by (intro py_in_take) (simp only:)
  next
    case (Cons i pre')
    then have p: "\<exists>pre q. p = pre @ dot_wav @ q" using pq by auto
    from "5.prems"(1) have l: "lit_matches c x" and c: "consume x g (match_here p g s) = Some (w, grp, rest)"
      by (auto split: if_splits)
    from consume_Some[OF c] obtain w' grp' where "match_here p g s = Some (w', grp', rest)" "w = x # w'"
      by blast
    then show ?thesis using "5.IH"[OF l _ p] by simp
  qed
next
  case (6 P p g)
  then show ?case by simp
next
  case (7 P p g x s)
  from "7.prems"(2) obtain pre q where pq: "OneOf P # p = pre @ dot_wav @ q" by blast
  then have "pre \<noteq> []" by (auto simp: dot_wav_def)
  then have p: "\<exists>pre q. p = pre @ dot_wav @ q" using pq by (cases pre) auto
  from "7.prems"(1) have l: "P x" and c: "consume x g (match_here p g s) = Some (w, grp, rest)"
    by (auto split: if_splits)
  from consume_Some[OF c] obtain w' grp' where "match_here p g s = Some (w', grp', rest)" "w = x # w'"
    by blast
  then show ?case using "7.IH"[OF l _ p] by simp
next
  case (8 c p g)
  from "8.prems"(2) obtain pre q where pq: "OptLit c # p = pre @ dot_wav @ q" by blast
  then have "pre \<noteq> []" by (auto simp: dot_wav_def)
  then have p: "\<exists>pre q. p = pre @ dot_wav @ q" using pq by (cases pre) auto
  then show ?case using 8 by simp
next
  case (9 c p g x s)
  from "9.prems"(2) obtain pre q where pq: "OptLit c # p = pre @ dot_wav @ q" by blast
  then have "pre \<noteq> []" by (auto simp: dot_wav_def)
  then have p: "\<exists>pre q. p = pre @ dot_wav @ q" using pq by (cases pre) auto
  show ?case
  proof (cases "lit_matches c x")
    case False
    then show ?thesis using "9.IH"(3)[OF False _ p] "9.prems"(1) by simp
  next
    case True
    show ?thesis
    proof (cases "consume x g (match_here p g s)")
      case None
      then show ?thesis using "9.IH"(2)[OF True None _ p] "9.prems"(1) True by simp
    next
      case (Some r)
      then have c: "consume x g (match_here p g s) = Some (w, grp, rest)"
        using "9.prems"(1) True by simp
      from consume_Some[OF c] obtain w' grp' where "match_here p g s = Some (w', grp', rest)" "w = x # w'"
        by blast
      then show ?thesis using "9.IH"(1)[OF True _ p] by simp
    qed
  qed
next
  case (10 P p g)
  then show ?case by simp
next
  case (11 P p g x s)
  from "11.prems"(2) obtain pre q where pq: "Plus P # p = pre @ dot_wav @ q" by blast
  then have "pre \<noteq> []" by (auto simp: dot_wav_def)
  then have p: "\<exists>pre q. p = pre @ dot_wav @ q" using pq by (cases pre) auto
  from "11.prems"(1) have px: "P x" by (auto split: if_splits)
  show ?case
  proof (cases "consume x g (match_here (Plus P # p) g s)")
    case None
    then have c: "consume x g (match_here p g s) = Some (w, grp, rest)"
      using "11.prems"(1) px by simp
    from consume_Some[OF c] obtain w' grp' where "match_here p g s = Some (w', grp', rest)" "w = x # w'"
      by blast
    then show ?thesis using "11.IH"(2)[OF px None _ p] by simp
  next
    case (Some r)
    then have c: "consume x g (match_here (Plus P # p) g s) = Some (w, grp, rest)"
      using "11.prems"(1) px by simp
    from consume_Some[OF c] obtain w' grp' where "match_here (Plus P # p) g s = Some (w', grp', rest)" "w = x # w'"
      by blast
    then show ?thesis using "11.IH"(1)[OF px _ "11.prems"(2)] by simp
  qed
qed

lemma findall_from_no_wav:
  assumes p: "\<exists>pre q. p = pre @ dot_wav @ q"
  shows "\<not> py_in (str ''.wav'') (map ascii_lower s) \<Longrightarrow> findall_from p k s = []"
proof (induction s arbitrary: k)
  case Nil
  have "match_here p False [] = None"
  proof (cases "match_here p False []")
    case (Some r)
    obtain w grp rest where r: "r = (w, grp, rest)" by (cases r) auto
    from match_has_wav[OF Some[unfolded r] p] match_here_split[OF Some[unfolded r]]
    show ?thesis by (simp add: str_def)
  qed simp
  then show ?case by simp
next
  case (Cons x s)
  have s: "\<not> py_in (str ''.wav'') (map ascii_lower s)" using Cons.prems by simp
  have m: "match_here p False (x # s) = None"
  proof (cases "match_here p False (x # s)")
    case (Some r)
    obtain w grp rest where r: "r = (w, grp, rest)" by (cases r) auto
    from match_has_wav[OF Some[unfolded r] p] match_here_split[OF Some[unfolded r]]
    have "py_in (str ''.wav'') (map ascii_lower (x # s))"
      by (metis map_append py_in_append)
    then show ?thesis using Cons.prems by blast
  qed simp
  show ?case
  proof (cases k)
    case 0
    then show ?thesis using m Cons.IH[OF s] by simp
  next
    case (Suc k')
    then show ?thesis using Cons.IH[OF s] by simp
  qed
qed

lemma SLACK_LINK_PATTERN_has_wav: "\<exists>pre q. SLACK_LINK_PATTERN = pre @ dot_wav @ q"
proof -
  have "SLACK_LINK_PATTERN = [Lit 60, GroupOpen, Lit 104, Lit 116, Lit 116, Lit 112, OptLit 115, Lit 58, Lit 47, Lit 47,
      Plus (\<lambda>c. c \<noteq> 124 \<and> c \<noteq> 62)] @ dot_wav @ [GroupClose, OneOf (\<lambda>c. c = 124 \<or> c = 62)]"
    by (simp add: SLACK_LINK_PATTERN_def dot_wav_def)
  then show ?thesis by blast
qed

lemma WAV_URL_PATTERN_has_wav: "\<exists>pre q. WAV_URL_PATTERN = pre @ dot_wav @ q"
proof -
  have "WAV_URL_PATTERN = [Lit 104, Lit 116, Lit 116, Lit 112, OptLit 115, Lit 58, Lit 47, Lit 47,
      Plus (\<lambda>c. \<not> py_isspace c \<and> c \<noteq> 60 \<and> c \<noteq> 62 \<and> c \<noteq> 124)] @ dot_wav @ []"
    by (simp add: WAV_URL_PATTERN_def dot_wav_def)
  then show ?thesis by blast
qed

lemma extract_no_wav: "\<not> py_in (str ''.wav'') (map ascii_lower text) \<Longrightarrow> extract_wav_urls text = []"
  by (simp add: extract_wav_urls_def findall_def findall_from_no_wav SLACK_LINK_PATTERN_has_wav WAV_URL_PATTERN_has_wav)

lemma extract_example_markup:
  "extract_wav_urls (str ''Check this call <https://x.example/call123.wav|recording.wav>'') =
     [str ''https://x.example/call123.wav'']"
  by (simp add: extract_wav_urls_def findall_def SLACK_LINK_PATTERN_def str_def lit_matches_def
      consume_def)

lemma extract_example_bare:
  "findall SLACK_LINK_PATTERN (str ''audio at https://x.example/a.wav now'') = [] \<and>
   extract_wav_urls (str ''audio at https://x.example/a.wav now'') = [str ''https://x.example/a.wav'']"
  by (simp add: extract_wav_urls_def findall_def SLACK_LINK_PATTERN_def WAV_URL_PATTERN_def str_def
      lit_matches_def consume_def py_isspace_def)

text \<open>
  C5, as the code has it. The markup-wrapped form is preferred: when the text holds a
  link \<^verbatim>\<open><url|label>\<close> or \<^verbatim>\<open><url>\<close> ending in \<^verbatim>\<open>.wav\<close>, the links found are the result, and
  bare URLs are searched only when there is none. The two examples of the specification
  give the stated lists. A text that does not contain \<^verbatim>\<open>.wav\<close> in any letter case gives
  the empty list.
\<close>

theorem extract_wav_urls_cases:
  "extract_wav_urls (str ''Check this call <https://x.example/call123.wav|recording.wav>'') =
     [str ''https://x.example/call123.wav''] \<and>
   extract_wav_urls (str ''audio at https://x.example/a.wav now'') = [str ''https://x.example/a.wav''] \<and>
   (\<not> py_in (str ''.wav'') (map ascii_lower text) \<longrightarrow> extract_wav_urls text = []) \<and>
   (findall SLACK_LINK_PATTERN text \<noteq> [] \<longrightarrow> extract_wav_urls text = findall SLACK_LINK_PATTERN text) \<and>
   (findall SLACK_LINK_PATTERN text = [] \<longrightarrow> extract_wav_urls text = findall WAV_URL_PATTERN text)"
proof (intro conjI impI)
  show "extract_wav_urls (str ''Check this call <https://x.example/call123.wav|recording.wav>'') =
     [str ''https://x.example/call123.wav'']"
    by (rule extract_example_markup)
  show "extract_wav_urls (str ''audio at https://x.example/a.wav now'') = [str ''https://x.example/a.wav'']"
    using extract_example_bare by blast
  show "extract_wav_urls text = []" if "\<not> py_in (str ''.wav'') (map ascii_lower text)"
    using that by (rule extract_no_wav)
  show "extract_wav_urls text = findall SLACK_LINK_PATTERN text" if "findall SLACK_LINK_PATTERN text \<noteq> []"
    using that by (simp add: extract_wav_urls_def)
  show "extract_wav_urls text = findall WAV_URL_PATTERN text" if "findall SLACK_LINK_PATTERN text = []"
    using that by (simp add: extract_wav_urls_def)
qed

theorem extract_wav_urls_cases_witness:
  "\<not> py_in (str ''.wav'') (map ascii_lower (str ''no audio here'')) \<and>
   extract_wav_urls (str ''no audio here'') = [] \<and>
   findall SLACK_LINK_PATTERN (str ''see <http://h/a.wav>'') \<noteq> [] \<and>
   extract_wav_urls (str ''see <http://h/a.wav>'') = [str ''http://h/a.wav''] \<and>
   findall SLACK_LINK_PATTERN (str ''audio at https://x.example/a.wav now'') = [] \<and>
   extract_wav_urls (str ''audio at https://x.example/a.wav now'') =
     findall WAV_URL_PATTERN (str ''audio at https://x.example/a.wav now'')"
proof -
  have a: "\<not> py_in (str ''.wav'') (map ascii_lower (str ''no audio here''))"
    by (simp add: str_def ascii_lower_def)
  have b: "findall SLACK_LINK_PATTERN (str ''see <http://h/a.wav>'') = [str ''http://h/a.wav'']"
    by (simp add: findall_def SLACK_LINK_PATTERN_def str_def lit_matches_def consume_def)
  have c: "findall SLACK_LINK_PATTERN (str ''audio at https://x.example/a.wav now'') = []"
    using extract_example_bare by simp
  have d: "extract_wav_urls (str ''no audio here'') = []"
    using a extract_wav_urls_cases [of "str ''no audio here''"] by blast
  have e: "extract_wav_urls (str ''see <http://h/a.wav>'') = [str ''http://h/a.wav'']"
    using b extract_wav_urls_cases [of "str ''see <http://h/a.wav>''"] by simp
  have f: "extract_wav_urls (str ''audio at https://x.example/a.wav now'') =
     findall WAV_URL_PATTERN (str ''audio at https://x.example/a.wav now'')"
    using c extract_wav_urls_cases [of "str ''audio at https://x.example/a.wav now''"] by blast
  show ?thesis using a b c d e f by simp
qed

text \<open>
  C5 as stated fails: the patterns are compiled with \<^verbatim>\<open>re.IGNORECASE\<close>, so a text without
  the substring \<^verbatim>\<open>.wav\<close> can still hold a URL ending in \<^verbatim>\<open>.WAV\<close>, which is extracted.
\<close>

theorem extract_wav_urls_uppercase_counterexample:
  "\<not> py_in (str ''.wav'') (str ''http://a/b.WAV'') \<and>
   extract_wav_urls (str ''http://a/b.WAV'') = [str ''http://a/b.WAV'']"
  by (simp add: extract_wav_urls_def findall_def SLACK_LINK_PATTERN_def WAV_URL_PATTERN_def str_def
      lit_matches_def consume_def py_isspace_def)

section \<open>The chunked transcriber\<close>

lemma recognize_chunks_texts:
  "no_other_error env chunks \<Longrightarrow>
   recognize_chunks env chunks parts = Inr (parts @ recognized_texts env chunks)"
  by (induction chunks arbitrary: parts) (auto split: recognition.splits)

lemma concat_chunks_texts:
  "no_other_error env chunks \<Longrightarrow>
   concat_chunks env chunks acc =
     Inr (acc @ concat (map (\<lambda>t. t @ str '' '') (recognized_texts env chunks)))"
  by (induction chunks arbitrary: acc) (auto split: recognition.splits)

lemma concat_join:
  "ts \<noteq> [] \<Longrightarrow> concat (map (\<lambda>t. t @ sep) ts) = py_join sep ts @ sep"
  by (induction sep ts rule: py_join.induct) auto

lemma py_strip_snoc_space:
  assumes "py_isspace x"
  shows "py_strip (s @ [x]) = py_strip s"
proof (cases "\<forall>y \<in> set s. py_isspace y")
  case True
  then have 1: "dropWhile py_isspace s = []"
    by simp
  have 2: "dropWhile py_isspace (s @ [x]) = []"
    using True assms by simp
  show ?thesis unfolding py_strip_def 1 2 by simp
next
  case False
  then have "dropWhile py_isspace (s @ [x]) = dropWhile py_isspace s @ [x]"
    by (auto simp: dropWhile_append)
  then show ?thesis using assms by (simp add: py_strip_def)
qed

lemma py_strip_concat_join:
  "py_strip (concat (map (\<lambda>t. t @ str '' '') ts)) = py_strip (py_join (str '' '') ts)"
proof (cases ts)
  case Nil
  then show ?thesis by simp
next
  case (Cons t ts')
  have sp: "str '' '' = [32]" by (simp add: str_def)
  have "concat (map (\<lambda>t. t @ [32]) ts) = py_join [32] ts @ [32]"
    using Cons concat_join [of ts "[32]"] by simp
  then show ?thesis
    unfolding sp by (simp add: py_strip_snoc_space py_isspace_def)
qed

text \<open>
  C6. Both chunked transcribers split the clip with \<^verbatim>\<open>min_silence_len\<close> 500, a threshold of the
  clip's loudness minus 14 and \<^verbatim>\<open>keep_silence\<close> 250. When no chunk makes the recogniser raise
  anything but \<^verbatim>\<open>UnknownValueError\<close>, they return, without raising, the texts of the
  recognised chunks in chunk order, joined by single spaces and stripped; the chunks that
  are not understood contribute nothing.
\<close>

theorem chunked_transcription:
  assumes "from_wav env w path = Inr audio"
    and "no_other_error env (split_on_silence env audio 500 (minus_dB env (dBFS env audio) 14) 250)"
  shows "transcribe_wav env w path =
           Inr (py_strip (py_join (str '' '')
                  (recognized_texts env
                     (split_on_silence env audio 500 (minus_dB env (dBFS env audio) 14) 250)))) \<and>
         analyze_dialogue_transcript env w path =
           Inr (py_strip (py_join (str '' '')
                  (recognized_texts env
                     (split_on_silence env audio 500 (minus_dB env (dBFS env audio) 14) 250))))"
  using assms
  by (simp add: transcribe_wav_def analyze_dialogue_transcript_def recognize_chunks_texts
      concat_chunks_texts py_strip_concat_join)

theorem chunked_transcription_witness:
  "from_wav env_ok world0 (str ''/tmp/t.wav'') = Inr 0 \<and>
   split_on_silence env_ok 0 500 (minus_dB env_ok (dBFS env_ok 0) 14) 250 = [1, 2, 3] \<and>
   minus_dB env_ok (dBFS env_ok 0) 14 = - 34 \<and>
   recognize_google env_ok 2 = UnknownValueError \<and>
   no_other_error env_ok (split_on_silence env_ok 0 500 (minus_dB env_ok (dBFS env_ok 0) 14) 250) \<and>
   transcribe_wav env_ok world0 (str ''/tmp/t.wav'') = Inr (str ''thank you for calling'') \<and>
   analyze_dialogue_transcript env_ok world0 (str ''/tmp/t.wav'') = Inr (str ''thank you for calling'')"
proof -
  have a: "from_wav env_ok world0 (str ''/tmp/t.wav'') = Inr 0"
    by (simp add: env_ok_def)
  have b: "split_on_silence env_ok 0 500 (minus_dB env_ok (dBFS env_ok 0) 14) 250 = [1, 2, 3]"
    by (simp add: env_ok_def)
  have c: "no_other_error env_ok (split_on_silence env_ok 0 500 (minus_dB env_ok (dBFS env_ok 0) 14) 250)"
    unfolding b by (simp add: env_ok_def)
  have d: "py_strip (py_join (str '' '') (recognized_texts env_ok [1, 2, 3])) = str ''thank you for calling''"
    by (simp add: env_ok_def str_def py_strip_def py_isspace_def)
  have e: "minus_dB env_ok (dBFS env_ok 0) 14 = - 34" "recognize_google env_ok 2 = UnknownValueError"
    by (simp_all add: env_ok_def)
  show ?thesis
    using chunked_transcription [OF a c] a b c e unfolding b d by simp
qed

section \<open>The channel restriction\<close>

lemma startswith_C: "startswith raw (str ''C'') \<longleftrightarrow> (\<exists>rest. raw = 67 # rest)"
  by (cases raw) (auto simp: startswith_def str_def)

text \<open>
  C10. The configured channel is kept only when it starts with \<^verbatim>\<open>C\<close> and has more than five
  characters; otherwise (also when it is unset) the restriction is empty and the handler
  treats a message from any channel as it would without a restriction. A kept restriction
  makes the handler drop every message from another channel.
\<close>

theorem channel_restriction_sanitized:
  "QA_CHANNEL_ID_qa_bot None = [] \<and>
   QA_CHANNEL_ID_qa_bot (Some raw) =
     (if (\<exists>rest. raw = 67 # rest) \<and> 5 < length raw then raw else []) \<and>
   (\<not> ((\<exists>rest. raw = 67 # rest) \<and> 5 < length raw) \<longrightarrow>
      handle_message_qa (cfg\<lparr>QA_CHANNEL_ID := QA_CHANNEL_ID_qa_bot (Some raw)\<rparr>) env event say client w =
      (case extract_wav_urls (default_str (ev_text event) []) of
         [] \<Rightarrow> w
       | first_url # more_urls \<Rightarrow>
           snd (process_wav_url (cfg\<lparr>QA_CHANNEL_ID := []\<rparr>) env first_url
                  (default_str (ev_ts event) []) (default_str (ev_channel event) [])
                  (Some say) (Some client) w))) \<and>
   ((\<exists>rest. raw = 67 # rest) \<and> 5 < length raw \<and> default_str (ev_channel event) [] \<noteq> raw \<longrightarrow>
      handle_message_qa (cfg\<lparr>QA_CHANNEL_ID := QA_CHANNEL_ID_qa_bot (Some raw)\<rparr>) env event say client w = w)"
proof -
  have s: "QA_CHANNEL_ID_qa_bot (Some raw) =
     (if (\<exists>rest. raw = 67 # rest) \<and> 5 < length raw then raw else [])"
    by (simp add: QA_CHANNEL_ID_qa_bot_def startswith_C)
  have n: "QA_CHANNEL_ID_qa_bot None = []"
    by (simp add: QA_CHANNEL_ID_qa_bot_def)
  show ?thesis
    unfolding s n by (auto simp: handle_message_qa_def Let_def)
qed

theorem channel_restriction_sanitized_witness:
  "\<not> ((\<exists>rest. str ''general'' = 67 # rest) \<and> 5 < length (str ''general'')) \<and>
   QA_CHANNEL_ID_qa_bot (Some (str ''general'')) = [] \<and>
   \<not> ((\<exists>rest. str ''C123'' = 67 # rest) \<and> 5 < length (str ''C123'')) \<and>
   handle_message_qa (config_source\<lparr>QA_CHANNEL_ID := QA_CHANNEL_ID_qa_bot (Some (str ''C123''))\<rparr>) env_ok
     \<lparr>ev_channel = Some (str ''C0999ZZZ''), ev_user = None, ev_text = Some (str ''hello''),
      ev_ts = Some (str ''1.0''), ev_files = None\<rparr> say_ok client_ok world0 = world0 \<and>
   ((\<exists>rest. str ''C08S6HHRH8F'' = 67 # rest) \<and> 5 < length (str ''C08S6HHRH8F'') \<and>
    default_str (ev_channel \<lparr>ev_channel = Some (str ''C0999ZZZ''), ev_user = None,
      ev_text = Some (str ''https://h/a.wav''), ev_ts = Some (str ''1.0''), ev_files = None\<rparr>) [] \<noteq>
    str ''C08S6HHRH8F'') \<and>
   QA_CHANNEL_ID_qa_bot (Some (str ''C08S6HHRH8F'')) = str ''C08S6HHRH8F'' \<and>
   handle_message_qa (config_source\<lparr>QA_CHANNEL_ID := QA_CHANNEL_ID_qa_bot (Some (str ''C08S6HHRH8F''))\<rparr>) env_ok
     \<lparr>ev_channel = Some (str ''C0999ZZZ''), ev_user = None, ev_text = Some (str ''https://h/a.wav''),
      ev_ts = Some (str ''1.0''), ev_files = None\<rparr> say_ok client_ok world0 = world0"
proof -
  let ?hello = "\<lparr>ev_channel = Some (str ''C0999ZZZ''), ev_user = None, ev_text = Some (str ''hello''),
      ev_ts = Some (str ''1.0''), ev_files = None\<rparr>"
  let ?wav = "\<lparr>ev_channel = Some (str ''C0999ZZZ''), ev_user = None,
      ev_text = Some (str ''https://h/a.wav''), ev_ts = Some (str ''1.0''), ev_files = None\<rparr>"
  have a: "\<not> ((\<exists>rest. str ''general'' = 67 # rest) \<and> 5 < length (str ''general''))"
    by (simp add: str_def)
  have b: "\<not> ((\<exists>rest. str ''C123'' = 67 # rest) \<and> 5 < length (str ''C123''))"
    by (simp add: str_def)
  have c: "(\<exists>rest. str ''C08S6HHRH8F'' = 67 # rest) \<and> 5 < length (str ''C08S6HHRH8F'') \<and>
    default_str (ev_channel ?wav) [] \<noteq> str ''C08S6HHRH8F''"
    by (simp add: str_def default_str_def)
  have d: "extract_wav_urls (default_str (ev_text ?hello) []) = []"
    by (simp add: default_str_def extract_wav_urls_def findall_def SLACK_LINK_PATTERN_def
        WAV_URL_PATTERN_def str_def lit_matches_def consume_def py_isspace_def)
  note t1 = channel_restriction_sanitized [of "str ''general''" config_source env_ok ?hello say_ok client_ok world0]
  note t2 = channel_restriction_sanitized [of "str ''C123''" config_source env_ok ?hello say_ok client_ok world0]
  note t3 = channel_restriction_sanitized [of "str ''C08S6HHRH8F''" config_source env_ok ?wav say_ok client_ok world0]
  have e: "QA_CHANNEL_ID_qa_bot (Some (str ''general'')) = []"
    using t1 [THEN conjunct2, THEN conjunct1] a by (simp only: if_False)
  have g: "handle_message_qa (config_source\<lparr>QA_CHANNEL_ID := QA_CHANNEL_ID_qa_bot (Some (str ''C123''))\<rparr>) env_ok
     ?hello say_ok client_ok world0 = world0"
    using t2 [THEN conjunct2, THEN conjunct2, THEN conjunct1, rule_format, OF b]
    by (simp only: d list.case)
  have h: "QA_CHANNEL_ID_qa_bot (Some (str ''C08S6HHRH8F'')) = str ''C08S6HHRH8F''"
    using t3 [THEN conjunct2, THEN conjunct1] c by (simp only: if_True simp_thms)
  have i: "handle_message_qa (config_source\<lparr>QA_CHANNEL_ID := QA_CHANNEL_ID_qa_bot (Some (str ''C08S6HHRH8F''))\<rparr>) env_ok
     ?wav say_ok client_ok world0 = world0"
    using t3 [THEN conjunct2, THEN conjunct2, THEN conjunct2, rule_format, OF c] .
  show ?thesis using a b c e g h i by blast
qed

section \<open>The record of calls of a run\<close>

lemma calls_emit [simp]: "calls (emit c w) = calls w @ [c]"
  by (simp add: emit_def)

lemma fs_emit [simp]: "fs (emit c w) = fs w"
  by (simp add: emit_def)

lemma add_reaction_quiet_emit [simp]:
  "add_reaction_quiet client channel name ts w = emit (ReactionsAdd channel name ts) w"
  by (simp add: add_reaction_quiet_def split: option.splits)

lemma remove_reaction_quiet_emit [simp]:
  "remove_reaction_quiet client channel name ts w = emit (ReactionsRemove channel name ts) w"
  by (simp add: remove_reaction_quiet_def split: option.splits)

lemma calls_react_all:
  "calls (react_all client channel ts names w) =
     calls w @ map (\<lambda>name. ReactionsAdd channel name ts) names"
  by (induction names arbitrary: w) auto

lemma fs_react_all: "fs (react_all client channel ts names w) = fs w"
  by (induction names arbitrary: w) auto

lemma say_call_simps [simp]:
  "fst (say_call say text ts w) = say w text ts"
  "snd (say_call say text ts w) = emit (Say text ts) w"
  by (simp_all add: say_call_def)

lemma analyze_transcript_world [simp]:
  "snd (analyze_transcript env model template transcript w) =
     emit (OllamaGenerate model (fst template @ transcript @ snd template)) w"
  by (simp add: analyze_transcript_def Let_def)

lemma calls_download:
  "calls (snd (download env auth url dest w)) = calls w @ [RequestsGet url auth]"
  by (simp add: download_def Let_def split: sum.splits option.splits)

lemma calls_unlink_quiet: "calls (unlink_quiet env p w) = calls w @ [Unlink p]"
  by (simp add: unlink_quiet_def Let_def)

lemma fs_unlink_quiet: "\<not> os_unlink_fails env w p \<Longrightarrow> fs (unlink_quiet env p w) p = None"
  by (simp add: unlink_quiet_def Let_def)

lemma calls_create_temp: "calls (create_temp p w) = calls w @ [NamedTemporaryFile p]"
  by (simp add: create_temp_def)

text \<open>Every part of a run only adds to the record of calls.\<close>

lemma calls_emit_stage_qa:
  "\<exists>cs. calls (snd (process_wav_url_emit cfg url ts ch say client transcript analysis w)) = calls w @ cs \<and>
        (\<forall>c \<in> set cs. is_reactions_add c \<or> is_say c)"
  by (auto simp: process_wav_url_emit_def Let_def calls_react_all say_call_def split: option.splits prod.splits)

lemma calls_transcribed_qa:
  "\<exists>cs. calls (snd (process_wav_url_transcribed cfg env url ts ch say client transcript w)) = calls w @ cs \<and>
        (\<forall>c \<in> set cs. is_reactions_add c \<or> is_say c \<or> is_generate c)"
proof (cases "transcript = [] \<or> length (py_strip transcript) < 10")
  case True
  then show ?thesis by (auto simp: process_wav_url_transcribed_def)
next
  case False
  obtain r w1 where a: "analyze_transcript env (OLLAMA_MODEL cfg) (QA_PROMPT_TEMPLATE cfg) transcript w = (r, w1)"
    by (cases "analyze_transcript env (OLLAMA_MODEL cfg) (QA_PROMPT_TEMPLATE cfg) transcript w")
  then have w1: "calls w1 = calls w @ [OllamaGenerate (OLLAMA_MODEL cfg) (fst (QA_PROMPT_TEMPLATE cfg) @ transcript @ snd (QA_PROMPT_TEMPLATE cfg))]"
    using analyze_transcript_world [of env "OLLAMA_MODEL cfg" "QA_PROMPT_TEMPLATE cfg" transcript w] by simp
  show ?thesis
  proof (cases r)
    case (Inl e)
    then show ?thesis using False a w1 by (simp add: process_wav_url_transcribed_def)
  next
    case (Inr analysis)
    from calls_emit_stage_qa [of cfg url ts ch say client transcript analysis w1]
    obtain cs where "calls (snd (process_wav_url_emit cfg url ts ch say client transcript analysis w1)) = calls w1 @ cs"
      "\<forall>c \<in> set cs. is_reactions_add c \<or> is_say c" by blast
    then show ?thesis using False a w1 Inr by (auto simp: process_wav_url_transcribed_def)
  qed
qed

lemma process_wav_url_try_shape:
  "(\<exists>e. new_temp env w = Inl e \<and> process_wav_url_try cfg env url ts ch say client w = (Inl e, None, w)) \<or>
   (\<exists>p r w1 cs. new_temp env w = Inr p \<and>
      process_wav_url_try cfg env url ts ch say client w = (r, Some p, w1) \<and>
      calls w1 = calls w @ [NamedTemporaryFile p, RequestsGet url False] @ cs \<and>
      (\<forall>c \<in> set cs. is_reactions_add c \<or> is_say c \<or> is_generate c))"
proof (cases "new_temp env w")
  case (Inl e)
  then show ?thesis by (simp add: process_wav_url_try_def)
next
  case (Inr p)
  obtain d w2 where d: "download_wav env url p (create_temp p w) = (d, w2)"
    by (cases "download_wav env url p (create_temp p w)")
  then have w2: "calls w2 = calls w @ [NamedTemporaryFile p, RequestsGet url False]"
    using calls_download [of env False url p "create_temp p w"]
    by (simp add: download_wav_def calls_create_temp)
  show ?thesis
  proof (cases d)
    case (Some e)
    then show ?thesis using Inr d w2 by (simp add: process_wav_url_try_def)
  next
    case None
    show ?thesis
    proof (cases "transcribe_wav_whisper env w2 p")
      case (Inl e)
      then show ?thesis using Inr d w2 None by (simp add: process_wav_url_try_def)
    next
      case t: (Inr transcript)
      obtain r w3 where s: "process_wav_url_transcribed cfg env url ts ch say client transcript w2 = (r, w3)"
        by (cases "process_wav_url_transcribed cfg env url ts ch say client transcript w2")
      from calls_transcribed_qa [of cfg env url ts ch say client transcript w2] s
      obtain cs where "calls w3 = calls w2 @ cs" "\<forall>c \<in> set cs. is_reactions_add c \<or> is_say c \<or> is_generate c"
        by auto
      then show ?thesis using Inr d w2 None t s by (simp add: process_wav_url_try_def)
    qed
  qed
qed

lemma calls_emit_stage_extra:
  "\<exists>cs. calls (snd (extra_emit say client ch ts filename transcript analysis w)) = calls w @ cs \<and>
        (\<forall>c \<in> set cs. is_reactions_add c \<or> is_say c)"
  by (auto simp: extra_emit_def Let_def calls_react_all)

lemma calls_transcribed_extra:
  "\<exists>cs. calls (snd (extra_transcribed cfg env say client ch ts filename transcript w)) = calls w @ cs \<and>
        (\<forall>c \<in> set cs. is_reactions_add c \<or> is_say c \<or> is_generate c)"
proof (cases "transcript = []")
  case True
  then show ?thesis by (auto simp: extra_transcribed_def)
next
  case False
  obtain r w1 where a: "analyze_transcript env (OLLAMA_MODEL cfg) (QA_PROMPT_TEMPLATE cfg) transcript w = (r, w1)"
    by (cases "analyze_transcript env (OLLAMA_MODEL cfg) (QA_PROMPT_TEMPLATE cfg) transcript w")
  then have w1: "calls w1 = calls w @ [OllamaGenerate (OLLAMA_MODEL cfg) (fst (QA_PROMPT_TEMPLATE cfg) @ transcript @ snd (QA_PROMPT_TEMPLATE cfg))]"
    using analyze_transcript_world [of env "OLLAMA_MODEL cfg" "QA_PROMPT_TEMPLATE cfg" transcript w] by simp
  show ?thesis
  proof (cases r)
    case (Inl e)
    then show ?thesis using False a w1 by (simp add: extra_transcribed_def)
  next
    case (Inr analysis)
    from calls_emit_stage_extra [of say client ch ts filename transcript analysis w1]
    obtain cs where "calls (snd (extra_emit say client ch ts filename transcript analysis w1)) = calls w1 @ cs"
      "\<forall>c \<in> set cs. is_reactions_add c \<or> is_say c" by blast
    then show ?thesis using False a w1 Inr by (auto simp: extra_transcribed_def)
  qed
qed

lemma extra_try_shape:
  "(\<exists>e. new_temp env w = Inl e \<and>
        extra_try cfg env say client ch ts filename url tmp0 w = (Some e, tmp0, w)) \<or>
   (\<exists>p r w1 cs. new_temp env w = Inr p \<and>
      extra_try cfg env say client ch ts filename url tmp0 w = (r, Some p, w1) \<and>
      calls w1 = calls w @ [NamedTemporaryFile p, RequestsGet url True] @ cs \<and>
      (\<forall>c \<in> set cs. is_reactions_add c \<or> is_say c \<or> is_generate c))"
proof (cases "new_temp env w")
  case (Inl e)
  then show ?thesis by (simp add: extra_try_def)
next
  case (Inr p)
  obtain d w2 where d: "download_slack_file env url p (create_temp p w) = (d, w2)"
    by (cases "download_slack_file env url p (create_temp p w)")
  then have w2: "calls w2 = calls w @ [NamedTemporaryFile p, RequestsGet url True]"
    using calls_download [of env True url p "create_temp p w"]
    by (simp add: download_slack_file_def calls_create_temp)
  show ?thesis
  proof (cases d)
    case (Some e)
    then show ?thesis using Inr d w2 by (simp add: extra_try_def)
  next
    case None
    show ?thesis
    proof (cases "transcribe_wav env w2 p")
      case (Inl e)
      then show ?thesis using Inr d w2 None by (simp add: extra_try_def)
    next
      case t: (Inr transcript)
      obtain r w3 where s: "extra_transcribed cfg env say client ch ts filename transcript w2 = (r, w3)"
        by (cases "extra_transcribed cfg env say client ch ts filename transcript w2")
      from calls_transcribed_extra [of cfg env say client ch ts filename transcript w2] s
      obtain cs where "calls w3 = calls w2 @ cs" "\<forall>c \<in> set cs. is_reactions_add c \<or> is_say c \<or> is_generate c"
        by auto
      then show ?thesis using Inr d w2 None t s by (simp add: extra_try_def)
    qed
  qed
qed

text \<open>The \<^verbatim>\<open>try\<close> blocks never ask whether \<^verbatim>\<open>os.unlink\<close> fails.\<close>

lemma recognize_chunks_unlink:
  "recognize_chunks (env\<lparr>os_unlink_fails := f\<rparr>) chunks parts = recognize_chunks env chunks parts"
  by (induction chunks arbitrary: parts) (auto split: recognition.splits)

lemma download_unlink:
  "download (env\<lparr>os_unlink_fails := f\<rparr>) auth url dest w = download env auth url dest w"
  by (simp add: download_def raise_for_status_def Let_def split: sum.splits)

lemma transcribe_wav_whisper_unlink:
  "transcribe_wav_whisper (env\<lparr>os_unlink_fails := f\<rparr>) w p = transcribe_wav_whisper env w p"
  by (simp add: transcribe_wav_whisper_def split: sum.splits)

lemma transcribe_wav_unlink:
  "transcribe_wav (env\<lparr>os_unlink_fails := f\<rparr>) w p = transcribe_wav env w p"
  by (simp add: transcribe_wav_def recognize_chunks_unlink Let_def split: sum.splits)

lemma analyze_transcript_unlink:
  "analyze_transcript (env\<lparr>os_unlink_fails := f\<rparr>) model template transcript w =
   analyze_transcript env model template transcript w"
  by (simp add: analyze_transcript_def)

lemma process_wav_url_transcribed_unlink:
  "process_wav_url_transcribed cfg (env\<lparr>os_unlink_fails := f\<rparr>) url ts ch say client transcript w =
   process_wav_url_transcribed cfg env url ts ch say client transcript w"
  by (simp add: process_wav_url_transcribed_def analyze_transcript_unlink split: prod.splits sum.splits)

lemma extra_transcribed_unlink:
  "extra_transcribed cfg (env\<lparr>os_unlink_fails := f\<rparr>) say client ch ts filename transcript w =
   extra_transcribed cfg env say client ch ts filename transcript w"
  by (simp add: extra_transcribed_def analyze_transcript_unlink split: prod.splits sum.splits)

lemma process_wav_url_try_unlink:
  "process_wav_url_try cfg (env\<lparr>os_unlink_fails := f\<rparr>) url ts ch say client w =
   process_wav_url_try cfg env url ts ch say client w"
  by (simp add: process_wav_url_try_def download_wav_def download_unlink
      transcribe_wav_whisper_unlink process_wav_url_transcribed_unlink
      split: prod.splits sum.splits option.splits)

lemma extra_try_unlink:
  "extra_try cfg (env\<lparr>os_unlink_fails := f\<rparr>) say client ch ts filename url tmp0 w =
   extra_try cfg env say client ch ts filename url tmp0 w"
  by (simp add: extra_try_def download_slack_file_def download_unlink transcribe_wav_unlink
      extra_transcribed_unlink split: prod.splits sum.splits option.splits)

lemma process_wav_url_cleanup:
  assumes "new_temp env w = Inr p" and "p \<noteq> []"
  shows "(\<exists>cs. calls (snd (process_wav_url cfg env url ts ch say client w)) = calls w @ cs @ [Unlink p]) \<and>
         ((\<forall>w'. \<not> os_unlink_fails env w' p) \<longrightarrow>
            fs (snd (process_wav_url cfg env url ts ch say client w)) p = None)"
proof -
  from process_wav_url_try_shape [of env w cfg url ts ch say client] assms(1)
  obtain r w1 cs where t: "process_wav_url_try cfg env url ts ch say client w = (r, Some p, w1)"
    and c: "calls w1 = calls w @ [NamedTemporaryFile p, RequestsGet url False] @ cs"
    by auto
  show ?thesis
  proof (cases r)
    case (Inl e)
    then show ?thesis using t c assms(2)
      by (auto simp: process_wav_url_def calls_unlink_quiet fs_unlink_quiet)
  next
    case (Inr v)
    then show ?thesis using t c assms(2)
      by (auto simp: process_wav_url_def calls_unlink_quiet fs_unlink_quiet)
  qed
qed

lemma extra_run_cleanup:
  assumes "new_temp env (add_reaction_quiet client ch hourglass ts w) = Inr p"
  shows "case extra_run cfg env say client ch ts filename url tmp0 w of
           (raised, tmp_path, w') \<Rightarrow>
             tmp_path = Some p \<and>
             (\<exists>cs. calls w' = calls w @ cs @ [Unlink p, ReactionsRemove ch hourglass ts]) \<and>
             ((\<forall>w''. \<not> os_unlink_fails env w'' p) \<longrightarrow> fs w' p = None)"
proof -
  let ?w0 = "emit (ReactionsAdd ch hourglass ts) w"
  from extra_try_shape [of env ?w0 cfg say client ch ts filename url tmp0] assms
  obtain r w1 cs where t: "extra_try cfg env say client ch ts filename url tmp0 ?w0 = (r, Some p, w1)"
    and c: "calls w1 = calls ?w0 @ [NamedTemporaryFile p, RequestsGet url True] @ cs"
    by auto
  show ?thesis
  proof (cases r)
    case None
    then show ?thesis using t c
      by (auto simp: extra_run_def calls_unlink_quiet fs_unlink_quiet)
  next
    case (Some e)
    then show ?thesis using t c
      by (auto simp: extra_run_def calls_unlink_quiet fs_unlink_quiet say_call_def)
  qed
qed



section \<open>Cleanup\<close>

text \<open>
  C4. A run that created its temporary file calls \<^verbatim>\<open>os.unlink\<close> on it when it ends, whatever
  the download, the transcription, the analysis, Slack and the reply did: in the URL
  pipeline it is the last call of the run, in the file-upload pipeline the last before the
  hourglass is removed, also when the error notice itself raises. When \<^verbatim>\<open>os.unlink\<close> does not
  raise, the file is gone afterwards. Whether it raises changes nothing in what the run
  returns or raises.
\<close>

theorem temp_file_removed:
  "(new_temp env w = Inr p \<and> p \<noteq> [] \<longrightarrow>
      (\<exists>cs. calls (snd (process_wav_url cfg env url ts ch osay oclient w)) = calls w @ cs @ [Unlink p]) \<and>
      ((\<forall>w'. \<not> os_unlink_fails env w' p) \<longrightarrow>
         fs (snd (process_wav_url cfg env url ts ch osay oclient w)) p = None)) \<and>
   (new_temp env (add_reaction_quiet client ch hourglass ts w) = Inr p \<longrightarrow>
      (case extra_run cfg env say client ch ts filename url tmp0 w of
         (raised, tmp_path, w') \<Rightarrow>
           tmp_path = Some p \<and>
           (\<exists>cs. calls w' = calls w @ cs @ [Unlink p, ReactionsRemove ch hourglass ts]) \<and>
           ((\<forall>w''. \<not> os_unlink_fails env w'' p) \<longrightarrow> fs w' p = None))) \<and>
   fst (process_wav_url cfg (env\<lparr>os_unlink_fails := f\<rparr>) url ts ch osay oclient w) =
     fst (process_wav_url cfg env url ts ch osay oclient w) \<and>
   fst (extra_run cfg (env\<lparr>os_unlink_fails := f\<rparr>) say client ch ts filename url tmp0 w) =
     fst (extra_run cfg env say client ch ts filename url tmp0 w)"
proof -
  have 1: "new_temp env w = Inr p \<and> p \<noteq> [] \<longrightarrow>
      (\<exists>cs. calls (snd (process_wav_url cfg env url ts ch osay oclient w)) = calls w @ cs @ [Unlink p]) \<and>
      ((\<forall>w'. \<not> os_unlink_fails env w' p) \<longrightarrow>
         fs (snd (process_wav_url cfg env url ts ch osay oclient w)) p = None)"
    using process_wav_url_cleanup [of env w p cfg url ts ch osay oclient] by blast
  have 2: "new_temp env (add_reaction_quiet client ch hourglass ts w) = Inr p \<longrightarrow>
      (case extra_run cfg env say client ch ts filename url tmp0 w of
         (raised, tmp_path, w') \<Rightarrow>
           tmp_path = Some p \<and>
           (\<exists>cs. calls w' = calls w @ cs @ [Unlink p, ReactionsRemove ch hourglass ts]) \<and>
           ((\<forall>w''. \<not> os_unlink_fails env w'' p) \<longrightarrow> fs w' p = None))"
    using extra_run_cleanup [of env client ch ts w p cfg say filename url tmp0] by (intro impI)
  have 3: "fst (process_wav_url cfg (env\<lparr>os_unlink_fails := f\<rparr>) url ts ch osay oclient w) =
     fst (process_wav_url cfg env url ts ch osay oclient w)"
    by (simp add: process_wav_url_def process_wav_url_try_unlink Let_def split: prod.splits sum.splits)
  have 4: "fst (extra_run cfg (env\<lparr>os_unlink_fails := f\<rparr>) say client ch ts filename url tmp0 w) =
     fst (extra_run cfg env say client ch ts filename url tmp0 w)"
    by (simp add: extra_run_def extra_try_unlink Let_def split: prod.splits option.splits)
  show ?thesis using 1 2 3 4 by (intro conjI)
qed

theorem temp_file_removed_witness:
  "new_temp env_download_fails world0 = Inr (str ''/tmp/t.wav'') \<and> str ''/tmp/t.wav'' \<noteq> [] \<and>
   (\<forall>w'. \<not> os_unlink_fails env_download_fails w' (str ''/tmp/t.wav'')) \<and>
   fs (snd (process_wav_url config_production env_download_fails (str ''https://h/a.wav'') (str ''1.0'')
              (str ''C0123ABCDEF'') (Some say_ok) (Some client_ok) world0)) (str ''/tmp/t.wav'') = None \<and>
   new_temp env_silent (add_reaction_quiet client_ok (str ''C0123ABCDEF'') hourglass (str ''1.0'') world0) =
     Inr (str ''/tmp/t.wav'') \<and>
   (\<forall>w'. \<not> os_unlink_fails env_silent w' (str ''/tmp/t.wav'')) \<and>
   (case extra_run config_source env_silent say_ok client_ok (str ''C0123ABCDEF'') (str ''1.0'')
           (str ''call.wav'') (str ''https://files/call.wav'') None world0 of
      (raised, tmp_path, w') \<Rightarrow> tmp_path = Some (str ''/tmp/t.wav'') \<and> fs w' (str ''/tmp/t.wav'') = None)"
proof -
  have a: "new_temp env_download_fails world0 = Inr (str ''/tmp/t.wav'') \<and> str ''/tmp/t.wav'' \<noteq> []"
    by (simp add: env_download_fails_def env_ok_def str_def)
  have b: "\<forall>w'. \<not> os_unlink_fails env_download_fails w' (str ''/tmp/t.wav'')"
    by (simp add: env_download_fails_def env_ok_def)
  have c: "new_temp env_silent (add_reaction_quiet client_ok (str ''C0123ABCDEF'') hourglass (str ''1.0'') world0) =
     Inr (str ''/tmp/t.wav'')"
    by (simp add: env_silent_def env_ok_def)
  have d: "\<forall>w'. \<not> os_unlink_fails env_silent w' (str ''/tmp/t.wav'')"
    by (simp add: env_silent_def env_ok_def)
  have e: "fs (snd (process_wav_url config_production env_download_fails (str ''https://h/a.wav'') (str ''1.0'')
              (str ''C0123ABCDEF'') (Some say_ok) (Some client_ok) world0)) (str ''/tmp/t.wav'') = None"
    using a b temp_file_removed [where env = env_download_fails and w = world0 and p = "str ''/tmp/t.wav''"
        and cfg = config_production and url = "str ''https://h/a.wav''" and ts = "str ''1.0''"
        and ch = "str ''C0123ABCDEF''" and osay = "Some say_ok" and oclient = "Some client_ok"]
    by blast
  have f: "case extra_run config_source env_silent say_ok client_ok (str ''C0123ABCDEF'') (str ''1.0'')
           (str ''call.wav'') (str ''https://files/call.wav'') None world0 of
      (raised, tmp_path, w') \<Rightarrow> tmp_path = Some (str ''/tmp/t.wav'') \<and> fs w' (str ''/tmp/t.wav'') = None"
    using c d temp_file_removed [where env = env_silent and w = world0 and p = "str ''/tmp/t.wav''"
        and cfg = config_source and url = "str ''https://files/call.wav''" and ts = "str ''1.0''"
        and ch = "str ''C0123ABCDEF''" and client = client_ok and say = say_ok
        and filename = "str ''call.wav''" and ?tmp0.0 = None]
    by (auto split: prod.splits)
  show ?thesis using a b c d e f by blast
qed

section \<open>One run per message\<close>

lemma emission_no_get:
  "\<forall>c \<in> set cs. is_reactions_add c \<or> is_say c \<or> is_generate c \<Longrightarrow>
   filter is_get cs = [] \<and> filter is_new_temp cs = []"
proof (induction cs)
  case Nil
  then show ?case by simp
next
  case (Cons c cs)
  then show ?case by (cases c) auto
qed

lemma process_wav_url_calls:
  "\<exists>cs. calls (snd (process_wav_url cfg env url ts ch say client w)) = calls w @ cs \<and>
        length (filter is_new_temp cs) \<le> 1 \<and>
        (filter is_get cs = [] \<or> filter is_get cs = [RequestsGet url False])"
proof -
  from process_wav_url_try_shape [of env w cfg url ts ch say client]
  consider (fail) e where "new_temp env w = Inl e"
      "process_wav_url_try cfg env url ts ch say client w = (Inl e, None, w)"
    | (ok) p r w1 cs where "new_temp env w = Inr p"
      "process_wav_url_try cfg env url ts ch say client w = (r, Some p, w1)"
      "calls w1 = calls w @ [NamedTemporaryFile p, RequestsGet url False] @ cs"
      "\<forall>c \<in> set cs. is_reactions_add c \<or> is_say c \<or> is_generate c"
    by blast
  then show ?thesis
  proof cases
    case fail
    then show ?thesis by (simp add: process_wav_url_def)
  next
    case ok
    from emission_no_get [OF ok(4)] have f: "filter is_get cs = []" "filter is_new_temp cs = []"
      by simp_all
    show ?thesis
    proof (cases r)
      case (Inl e)
      then show ?thesis using ok(2,3) f
        by (cases "p = []") (simp_all add: process_wav_url_def calls_unlink_quiet)
    next
      case (Inr v)
      then show ?thesis using ok(2,3) f
        by (cases "p = []") (simp_all add: process_wav_url_def calls_unlink_quiet)
    qed
  qed
qed

lemma handle_message_qa_calls:
  "\<exists>cs. calls (handle_message_qa cfg env event say client w) = calls w @ cs \<and>
        length (filter is_new_temp cs) \<le> 1 \<and>
        (filter is_get cs = [] \<or>
         (\<exists>first_url more_urls. extract_wav_urls (default_str (ev_text event) []) = first_url # more_urls \<and>
            filter is_get cs = [RequestsGet first_url False]))"
proof (cases "QA_CHANNEL_ID cfg \<noteq> [] \<and> default_str (ev_channel event) [] \<noteq> QA_CHANNEL_ID cfg")
  case True
  then show ?thesis by (simp add: handle_message_qa_def Let_def)
next
  case False
  show ?thesis
  proof (cases "extract_wav_urls (default_str (ev_text event) [])")
    case Nil
    then show ?thesis using False by (simp add: handle_message_qa_def Let_def)
  next
    case (Cons first_url more_urls)
    from process_wav_url_calls [of cfg env first_url "default_str (ev_ts event) []"
        "default_str (ev_channel event) []" "Some say" "Some client" w]
    show ?thesis using False Cons by (auto simp: handle_message_qa_def Let_def)
  qed
qed

lemma latest_loop_calls:
  "\<exists>cs. calls (latest_loop cfg env channel_id messages w) = calls w @ cs \<and>
        length (filter is_new_temp cs) \<le> 1 \<and>
        (filter is_get cs = [] \<or>
         (\<exists>msg first_url more_urls.
            find (\<lambda>m. extract_wav_urls (default_str (ev_text m) []) \<noteq> []) messages = Some msg \<and>
            extract_wav_urls (default_str (ev_text msg) []) = first_url # more_urls \<and>
            filter is_get cs = [RequestsGet first_url False]))"
proof (induction messages)
  case Nil
  then show ?case by simp
next
  case (Cons msg rest)
  show ?case
  proof (cases "extract_wav_urls (default_str (ev_text msg) [])")
    case Nil
    then show ?thesis using Cons.IH by simp
  next
    case c: (Cons first_url more_urls)
    from process_wav_url_calls [of cfg env first_url "default_str (ev_ts msg) []" channel_id None None w]
    show ?thesis using c by auto
  qed
qed

lemma latest_loop_find:
  "find (\<lambda>m. extract_wav_urls (default_str (ev_text m) []) \<noteq> []) messages = Some msg \<Longrightarrow>
   extract_wav_urls (default_str (ev_text msg) []) = first_url # more_urls \<Longrightarrow>
   latest_loop cfg env channel_id messages w =
     snd (process_wav_url cfg env first_url (default_str (ev_ts msg) []) channel_id None None w)"
proof (induction messages)
  case Nil
  then show ?case by simp
next
  case (Cons m rest)
  show ?case
  proof (cases "extract_wav_urls (default_str (ev_text m) [])")
    case Nil
    then show ?thesis using Cons by simp
  next
    case c: (Cons u us)
    then have "m = msg" using Cons.prems(1) by simp
    then show ?thesis using c Cons.prems(2) by simp
  qed
qed

lemma extract_two_urls:
  "extract_wav_urls (default_str (ev_text event_two_urls) []) = [str ''https://h/a.wav'', str ''https://h/b.wav'']"
  by (simp add: event_two_urls_def default_str_def extract_wav_urls_def findall_def
      SLACK_LINK_PATTERN_def str_def lit_matches_def consume_def)

lemma extract_chat: "extract_wav_urls (default_str (ev_text event_chat) []) = []"
  by (simp add: event_chat_def default_str_def extract_wav_urls_def findall_def
      SLACK_LINK_PATTERN_def WAV_URL_PATTERN_def str_def lit_matches_def consume_def py_isspace_def)

text \<open>
  C9. The handler of the URL pipeline starts at most one run for a message: in the calls
  it adds there is at most one temporary file and at most one download, and a download is
  of the first URL extracted from the text; when the message passes the channel filter
  and holds a URL, the handler is the run on that first URL. The startup replay fetches
  with limit 20 and does the same for the first fetched message, in the order returned,
  whose text holds a URL.
\<close>

theorem one_run_per_message:
  "(\<exists>cs. calls (handle_message_qa cfg env event say client w) = calls w @ cs \<and>
        length (filter is_new_temp cs) \<le> 1 \<and>
        (filter is_get cs = [] \<or>
         (\<exists>first_url more_urls. extract_wav_urls (default_str (ev_text event) []) = first_url # more_urls \<and>
            filter is_get cs = [RequestsGet first_url False]))) \<and>
   (extract_wav_urls (default_str (ev_text event) []) = first_url # more_urls \<and>
    \<not> (QA_CHANNEL_ID cfg \<noteq> [] \<and> default_str (ev_channel event) [] \<noteq> QA_CHANNEL_ID cfg) \<longrightarrow>
    handle_message_qa cfg env event say client w =
      snd (process_wav_url cfg env first_url (default_str (ev_ts event) [])
             (default_str (ev_channel event) []) (Some say) (Some client) w)) \<and>
   (conversations_history env w channel_id 20 = Inr messages \<longrightarrow>
    (\<exists>cs. calls (process_latest_message cfg env channel_id w) =
            calls w @ ConversationsHistory channel_id 20 # cs \<and>
        length (filter is_new_temp cs) \<le> 1 \<and>
        (filter is_get cs = [] \<or>
         (\<exists>msg first_url more_urls.
            find (\<lambda>m. extract_wav_urls (default_str (ev_text m) []) \<noteq> []) messages = Some msg \<and>
            extract_wav_urls (default_str (ev_text msg) []) = first_url # more_urls \<and>
            filter is_get cs = [RequestsGet first_url False])))) \<and>
   (conversations_history env w channel_id 20 = Inr messages \<and>
    find (\<lambda>m. extract_wav_urls (default_str (ev_text m) []) \<noteq> []) messages = Some msg \<and>
    extract_wav_urls (default_str (ev_text msg) []) = latest_url # later_urls \<longrightarrow>
    process_latest_message cfg env channel_id w =
      snd (process_wav_url cfg env latest_url (default_str (ev_ts msg) []) channel_id None None
             (emit (ConversationsHistory channel_id 20) w)))"
proof (intro conjI impI)
  show "\<exists>cs. calls (handle_message_qa cfg env event say client w) = calls w @ cs \<and>
        length (filter is_new_temp cs) \<le> 1 \<and>
        (filter is_get cs = [] \<or>
         (\<exists>first_url more_urls. extract_wav_urls (default_str (ev_text event) []) = first_url # more_urls \<and>
            filter is_get cs = [RequestsGet first_url False]))"
    by (rule handle_message_qa_calls)
next
  assume "extract_wav_urls (default_str (ev_text event) []) = first_url # more_urls \<and>
    \<not> (QA_CHANNEL_ID cfg \<noteq> [] \<and> default_str (ev_channel event) [] \<noteq> QA_CHANNEL_ID cfg)"
  then show "handle_message_qa cfg env event say client w =
      snd (process_wav_url cfg env first_url (default_str (ev_ts event) [])
             (default_str (ev_channel event) []) (Some say) (Some client) w)"
    by (auto simp: handle_message_qa_def Let_def)
next
  assume h: "conversations_history env w channel_id 20 = Inr messages"
  from latest_loop_calls [of cfg env channel_id messages "emit (ConversationsHistory channel_id 20) w"]
  show "\<exists>cs. calls (process_latest_message cfg env channel_id w) =
            calls w @ ConversationsHistory channel_id 20 # cs \<and>
        length (filter is_new_temp cs) \<le> 1 \<and>
        (filter is_get cs = [] \<or>
         (\<exists>msg first_url more_urls.
            find (\<lambda>m. extract_wav_urls (default_str (ev_text m) []) \<noteq> []) messages = Some msg \<and>
            extract_wav_urls (default_str (ev_text msg) []) = first_url # more_urls \<and>
            filter is_get cs = [RequestsGet first_url False]))"
    using h by (auto simp: process_latest_message_def Let_def)
next
  assume "conversations_history env w channel_id 20 = Inr messages \<and>
    find (\<lambda>m. extract_wav_urls (default_str (ev_text m) []) \<noteq> []) messages = Some msg \<and>
    extract_wav_urls (default_str (ev_text msg) []) = latest_url # later_urls"
  then show "process_latest_message cfg env channel_id w =
      snd (process_wav_url cfg env latest_url (default_str (ev_ts msg) []) channel_id None None
             (emit (ConversationsHistory channel_id 20) w))"
    by (simp add: process_latest_message_def Let_def latest_loop_find)
qed

theorem one_run_per_message_witness:
  "extract_wav_urls (default_str (ev_text event_two_urls) []) =
     str ''https://h/a.wav'' # [str ''https://h/b.wav''] \<and>
   \<not> (QA_CHANNEL_ID config_production \<noteq> [] \<and>
      default_str (ev_channel event_two_urls) [] \<noteq> QA_CHANNEL_ID config_production) \<and>
   handle_message_qa config_production env_ok event_two_urls say_ok client_ok world0 =
     snd (process_wav_url config_production env_ok (str ''https://h/a.wav'')
            (default_str (ev_ts event_two_urls) []) (default_str (ev_channel event_two_urls) [])
            (Some say_ok) (Some client_ok) world0) \<and>
   conversations_history env_history world0 (str ''C0123ABCDEF'') 20 = Inr [event_chat, event_two_urls] \<and>
   find (\<lambda>m. extract_wav_urls (default_str (ev_text m) []) \<noteq> []) [event_chat, event_two_urls] =
     Some event_two_urls \<and>
   process_latest_message config_production env_history (str ''C0123ABCDEF'') world0 =
     snd (process_wav_url config_production env_history (str ''https://h/a.wav'')
            (default_str (ev_ts event_two_urls) []) (str ''C0123ABCDEF'') None None
            (emit (ConversationsHistory (str ''C0123ABCDEF'') 20) world0)) \<and>
   (\<exists>cs. calls (process_latest_message config_production env_history (str ''C0123ABCDEF'') world0) =
            calls world0 @ ConversationsHistory (str ''C0123ABCDEF'') 20 # cs \<and>
        length (filter is_new_temp cs) \<le> 1 \<and>
        (filter is_get cs = [] \<or> filter is_get cs = [RequestsGet (str ''https://h/a.wav'') False]))"
proof -
  have a: "extract_wav_urls (default_str (ev_text event_two_urls) []) =
     str ''https://h/a.wav'' # [str ''https://h/b.wav'']"
    by (rule extract_two_urls)
  have b: "\<not> (QA_CHANNEL_ID config_production \<noteq> [] \<and>
      default_str (ev_channel event_two_urls) [] \<noteq> QA_CHANNEL_ID config_production)"
    by (simp add: config_production_def config_source_def)
  have c: "conversations_history env_history world0 (str ''C0123ABCDEF'') 20 = Inr [event_chat, event_two_urls]"
    by (simp add: env_history_def env_ok_def)
  have d: "find (\<lambda>m. extract_wav_urls (default_str (ev_text m) []) \<noteq> []) [event_chat, event_two_urls] =
     Some event_two_urls"
    by (simp add: extract_chat extract_two_urls)
  note t = one_run_per_message [where cfg = config_production and event = event_two_urls
      and first_url = "str ''https://h/a.wav''" and more_urls = "[str ''https://h/b.wav'']"
      and say = say_ok and client = client_ok and w = world0 and channel_id = "str ''C0123ABCDEF''"
      and messages = "[event_chat, event_two_urls]" and msg = event_two_urls
      and latest_url = "str ''https://h/a.wav''" and later_urls = "[str ''https://h/b.wav'']"]
  have e: "handle_message_qa config_production env_ok event_two_urls say_ok client_ok world0 =
     snd (process_wav_url config_production env_ok (str ''https://h/a.wav'')
            (default_str (ev_ts event_two_urls) []) (default_str (ev_channel event_two_urls) [])
            (Some say_ok) (Some client_ok) world0)"
    using a b t [where env = env_ok] by blast
  have f: "process_latest_message config_production env_history (str ''C0123ABCDEF'') world0 =
     snd (process_wav_url config_production env_history (str ''https://h/a.wav'')
            (default_str (ev_ts event_two_urls) []) (str ''C0123ABCDEF'') None None
            (emit (ConversationsHistory (str ''C0123ABCDEF'') 20) world0))"
    using a c d t [where env = env_history] by blast
  have g: "\<exists>cs. calls (process_latest_message config_production env_history (str ''C0123ABCDEF'') world0) =
            calls world0 @ ConversationsHistory (str ''C0123ABCDEF'') 20 # cs \<and>
        length (filter is_new_temp cs) \<le> 1 \<and>
        (filter is_get cs = [] \<or> filter is_get cs = [RequestsGet (str ''https://h/a.wav'') False])"
  proof -
    from c t [where env = env_history]
    obtain cs where cs: "calls (process_latest_message config_production env_history (str ''C0123ABCDEF'') world0) =
            calls world0 @ ConversationsHistory (str ''C0123ABCDEF'') 20 # cs"
        "length (filter is_new_temp cs) \<le> 1"
        "filter is_get cs = [] \<or>
         (\<exists>msg first_url more_urls.
            find (\<lambda>m. extract_wav_urls (default_str (ev_text m) []) \<noteq> []) [event_chat, event_two_urls] = Some msg \<and>
            extract_wav_urls (default_str (ev_text msg) []) = first_url # more_urls \<and>
            filter is_get cs = [RequestsGet first_url False])"
      by blast
    from cs(3) have "filter is_get cs = [] \<or> filter is_get cs = [RequestsGet (str ''https://h/a.wav'') False]"
      unfolding d using a by auto
    then show ?thesis using cs(1,2) by blast
  qed
  show ?thesis using a b c d e f g by blast
qed

section \<open>The usability threshold\<close>

lemma qa_transcribed_unusable:
  "transcript = [] \<or> length (py_strip transcript) < 10 \<Longrightarrow>
   process_wav_url_transcribed cfg env url ts ch say client transcript w =
     (Inr no_speech_detected,
      if \<not> ANALYZE_ONLY cfg \<and> client \<noteq> None \<and> ts \<noteq> [] \<and> ch \<noteq> []
      then emit (ReactionsAdd ch (str ''x'') ts) w else w)"
  by (simp add: process_wav_url_transcribed_def)

lemma qa_transcribed_usable:
  assumes "\<not> (transcript = [] \<or> length (py_strip transcript) < 10)"
  shows "\<exists>cs. calls (snd (process_wav_url_transcribed cfg env url ts ch say client transcript w)) =
           calls w @ OllamaGenerate (OLLAMA_MODEL cfg)
                       (fst (QA_PROMPT_TEMPLATE cfg) @ transcript @ snd (QA_PROMPT_TEMPLATE cfg)) # cs"
proof -
  obtain r w1 where a: "analyze_transcript env (OLLAMA_MODEL cfg) (QA_PROMPT_TEMPLATE cfg) transcript w = (r, w1)"
    by (cases "analyze_transcript env (OLLAMA_MODEL cfg) (QA_PROMPT_TEMPLATE cfg) transcript w")
  then have w1: "calls w1 = calls w @ [OllamaGenerate (OLLAMA_MODEL cfg) (fst (QA_PROMPT_TEMPLATE cfg) @ transcript @ snd (QA_PROMPT_TEMPLATE cfg))]"
    using analyze_transcript_world [of env "OLLAMA_MODEL cfg" "QA_PROMPT_TEMPLATE cfg" transcript w] by simp
  show ?thesis
  proof (cases r)
    case (Inl e)
    then show ?thesis using assms a w1 by (simp add: process_wav_url_transcribed_def)
  next
    case (Inr analysis)
    from calls_emit_stage_qa [of cfg url ts ch say client transcript analysis w1]
    obtain cs where "calls (snd (process_wav_url_emit cfg url ts ch say client transcript analysis w1)) = calls w1 @ cs"
      by blast
    then show ?thesis using assms a w1 Inr by (simp add: process_wav_url_transcribed_def)
  qed
qed

lemma extra_transcribed_empty:
  "extra_transcribed cfg env say client ch ts filename [] w =
     (say w (could_not_transcribe filename) ts, emit (Say (could_not_transcribe filename) ts) w)"
  by (simp add: extra_transcribed_def say_call_def)

lemma extra_transcribed_nonempty:
  assumes "transcript \<noteq> []"
  shows "\<exists>cs. calls (snd (extra_transcribed cfg env say client ch ts filename transcript w)) =
           calls w @ OllamaGenerate (OLLAMA_MODEL cfg)
                       (fst (QA_PROMPT_TEMPLATE cfg) @ transcript @ snd (QA_PROMPT_TEMPLATE cfg)) # cs"
proof -
  obtain r w1 where a: "analyze_transcript env (OLLAMA_MODEL cfg) (QA_PROMPT_TEMPLATE cfg) transcript w = (r, w1)"
    by (cases "analyze_transcript env (OLLAMA_MODEL cfg) (QA_PROMPT_TEMPLATE cfg) transcript w")
  then have w1: "calls w1 = calls w @ [OllamaGenerate (OLLAMA_MODEL cfg) (fst (QA_PROMPT_TEMPLATE cfg) @ transcript @ snd (QA_PROMPT_TEMPLATE cfg))]"
    using analyze_transcript_world [of env "OLLAMA_MODEL cfg" "QA_PROMPT_TEMPLATE cfg" transcript w] by simp
  show ?thesis
  proof (cases r)
    case (Inl e)
    then show ?thesis using assms a w1 by (simp add: extra_transcribed_def)
  next
    case (Inr analysis)
    from calls_emit_stage_extra [of say client ch ts filename transcript analysis w1]
    obtain cs where "calls (snd (extra_emit say client ch ts filename transcript analysis w1)) = calls w1 @ cs"
      by blast
    then show ?thesis using assms a w1 Inr by (simp add: extra_transcribed_def)
  qed
qed

text \<open>
  C7, as the code has it. In the URL pipeline a transcript that is empty or whose stripped
  length is below 10 ends the run with the no-speech text as its value, not with an
  exception, and the model is not called; every other transcript is sent to the model. In
  the file-upload pipeline there is no length threshold: only the empty transcript takes
  the no-speech path, where the one call is the notice, and every non-empty transcript,
  however short, is sent to the model.
\<close>

theorem usability_threshold:
  "(transcript = [] \<or> length (py_strip transcript) < 10 \<longrightarrow>
      fst (process_wav_url_transcribed cfg env url ts ch osay oclient transcript w) = Inr no_speech_detected \<and>
      filter is_generate
        (new_calls w (snd (process_wav_url_transcribed cfg env url ts ch osay oclient transcript w))) = []) \<and>
   (\<not> (transcript = [] \<or> length (py_strip transcript) < 10) \<longrightarrow>
      (\<exists>cs. new_calls w (snd (process_wav_url_transcribed cfg env url ts ch osay oclient transcript w)) =
             OllamaGenerate (OLLAMA_MODEL cfg)
               (fst (QA_PROMPT_TEMPLATE cfg) @ transcript @ snd (QA_PROMPT_TEMPLATE cfg)) # cs)) \<and>
   (transcript = [] \<longrightarrow>
      fst (extra_transcribed cfg env say client ch ts filename transcript w) =
        say w (could_not_transcribe filename) ts \<and>
      new_calls w (snd (extra_transcribed cfg env say client ch ts filename transcript w)) =
        [Say (could_not_transcribe filename) ts]) \<and>
   (transcript \<noteq> [] \<longrightarrow>
      (\<exists>cs. new_calls w (snd (extra_transcribed cfg env say client ch ts filename transcript w)) =
             OllamaGenerate (OLLAMA_MODEL cfg)
               (fst (QA_PROMPT_TEMPLATE cfg) @ transcript @ snd (QA_PROMPT_TEMPLATE cfg)) # cs))"
proof (intro conjI impI)
  assume u: "transcript = [] \<or> length (py_strip transcript) < 10"
  show "fst (process_wav_url_transcribed cfg env url ts ch osay oclient transcript w) = Inr no_speech_detected"
    by (simp add: qa_transcribed_unusable [OF u])
  show "filter is_generate
        (new_calls w (snd (process_wav_url_transcribed cfg env url ts ch osay oclient transcript w))) = []"
    by (simp add: qa_transcribed_unusable [OF u] new_calls_def)
next
  assume u: "\<not> (transcript = [] \<or> length (py_strip transcript) < 10)"
  from qa_transcribed_usable [OF u, of cfg env url ts ch osay oclient w]
  show "\<exists>cs. new_calls w (snd (process_wav_url_transcribed cfg env url ts ch osay oclient transcript w)) =
             OllamaGenerate (OLLAMA_MODEL cfg)
               (fst (QA_PROMPT_TEMPLATE cfg) @ transcript @ snd (QA_PROMPT_TEMPLATE cfg)) # cs"
    by (auto simp: new_calls_def)
next
  assume e: "transcript = []"
  show "fst (extra_transcribed cfg env say client ch ts filename transcript w) =
        say w (could_not_transcribe filename) ts"
    by (simp add: e extra_transcribed_empty)
  show "new_calls w (snd (extra_transcribed cfg env say client ch ts filename transcript w)) =
        [Say (could_not_transcribe filename) ts]"
    by (simp add: e extra_transcribed_empty new_calls_def)
next
  assume n: "transcript \<noteq> []"
  from extra_transcribed_nonempty [OF n, of cfg env say client ch ts filename w]
  show "\<exists>cs. new_calls w (snd (extra_transcribed cfg env say client ch ts filename transcript w)) =
             OllamaGenerate (OLLAMA_MODEL cfg)
               (fst (QA_PROMPT_TEMPLATE cfg) @ transcript @ snd (QA_PROMPT_TEMPLATE cfg)) # cs"
    by (auto simp: new_calls_def)
qed

lemma strip_hi: "py_strip (str ''hi'') = str ''hi''"
  by (simp add: py_strip_def str_def py_isspace_def)

theorem usability_threshold_witness:
  "(str ''hi'' = [] \<or> length (py_strip (str ''hi'')) < 10) \<and>
   fst (process_wav_url_transcribed config_production env_ok (str ''https://h/a.wav'') (str ''1.0'')
          (str ''C0123ABCDEF'') (Some say_ok) (Some client_ok) (str ''hi'') world0) = Inr no_speech_detected \<and>
   \<not> (str ''thank you for calling'' = [] \<or> length (py_strip (str ''thank you for calling'')) < 10) \<and>
   (\<exists>cs. new_calls world0 (snd (process_wav_url_transcribed config_production env_ok (str ''https://h/a.wav'')
             (str ''1.0'') (str ''C0123ABCDEF'') (Some say_ok) (Some client_ok)
             (str ''thank you for calling'') world0)) =
          OllamaGenerate (OLLAMA_MODEL config_production)
            (fst (QA_PROMPT_TEMPLATE config_production) @ str ''thank you for calling'' @
             snd (QA_PROMPT_TEMPLATE config_production)) # cs) \<and>
   new_calls world0 (snd (extra_transcribed config_source env_ok say_ok client_ok (str ''C0123ABCDEF'')
       (str ''1.0'') (str ''call.wav'') [] world0)) = [Say (could_not_transcribe (str ''call.wav'')) (str ''1.0'')] \<and>
   str ''hi'' \<noteq> [] \<and>
   (\<exists>cs. new_calls world0 (snd (extra_transcribed config_source env_ok say_ok client_ok (str ''C0123ABCDEF'')
             (str ''1.0'') (str ''call.wav'') (str ''hi'') world0)) =
          OllamaGenerate (OLLAMA_MODEL config_source)
            (fst (QA_PROMPT_TEMPLATE config_source) @ str ''hi'' @ snd (QA_PROMPT_TEMPLATE config_source)) # cs)"
proof -
  have a: "str ''hi'' = [] \<or> length (py_strip (str ''hi'')) < 10"
    by (simp add: strip_hi) (simp add: str_def)
  have b: "\<not> (str ''thank you for calling'' = [] \<or> length (py_strip (str ''thank you for calling'')) < 10)"
    by (simp add: py_strip_def str_def py_isspace_def)
  have c: "str ''hi'' \<noteq> []" by (simp add: str_def)
  note q = usability_threshold [where cfg = config_production and env = env_ok
      and url = "str ''https://h/a.wav''" and ts = "str ''1.0''" and ch = "str ''C0123ABCDEF''"
      and osay = "Some say_ok" and oclient = "Some client_ok" and w = world0]
  note x = usability_threshold [where cfg = config_source and env = env_ok and say = say_ok
      and client = client_ok and ts = "str ''1.0''" and ch = "str ''C0123ABCDEF''"
      and filename = "str ''call.wav''" and w = world0]
  show ?thesis
    using a b c q [where transcript = "str ''hi''"] q [where transcript = "str ''thank you for calling''"]
      x [where transcript = "[]"] x [where transcript = "str ''hi''"]
    by blast
qed

text \<open>
  C7 as stated fails in the file-upload pipeline: the transcript \<^verbatim>\<open>hi\<close> has two characters
  and the first call after the transcription is the model's.
\<close>

theorem usability_threshold_counterexample:
  "length (py_strip (str ''hi'')) < 10 \<and>
   take 1 (calls (snd (extra_transcribed config_source env_ok say_ok client_ok (str ''C0123ABCDEF'')
             (str ''1.0'') (str ''call.wav'') (str ''hi'') world0))) =
     [OllamaGenerate (str ''llama'') (str ''TRANSCRIPT: '' @ str ''hi'' @ str '' GRADE:'')]"
proof -
  have c: "str ''hi'' \<noteq> []" by (simp add: str_def)
  from extra_transcribed_nonempty [OF c, of config_source env_ok say_ok client_ok "str ''C0123ABCDEF''"
      "str ''1.0''" "str ''call.wav''" world0]
  obtain cs where "calls (snd (extra_transcribed config_source env_ok say_ok client_ok (str ''C0123ABCDEF'')
             (str ''1.0'') (str ''call.wav'') (str ''hi'') world0)) =
      calls world0 @ OllamaGenerate (OLLAMA_MODEL config_source)
         (fst (QA_PROMPT_TEMPLATE config_source) @ str ''hi'' @ snd (QA_PROMPT_TEMPLATE config_source)) # cs"
    by blast
  then have "take 1 (calls (snd (extra_transcribed config_source env_ok say_ok client_ok (str ''C0123ABCDEF'')
             (str ''1.0'') (str ''call.wav'') (str ''hi'') world0))) =
     [OllamaGenerate (str ''llama'') (str ''TRANSCRIPT: '' @ str ''hi'' @ str '' GRADE:'')]"
    by (simp add: world0_def config_source_def)
  moreover have "length (py_strip (str ''hi'')) < 10"
    by (simp add: strip_hi) (simp add: str_def)
  ultimately show ?thesis by blast
qed

section \<open>The indeterminate grade\<close>

lemma extract_none:
  "\<forall>(icon, emoji_name) \<in> set T. \<not> py_in icon analysis \<Longrightarrow> extract_grade_emojis T analysis = []"
  by (auto simp: extract_grade_emojis_filter filter_empty_conv)

lemma reply_text_ends_with_analysis:
  "\<exists>pre. reply_text name transcript analysis = pre @ analysis \<and> py_in name pre \<and>
         py_in (take 1500 transcript) pre"
proof -
  let ?pre = "str ''*QA Analysis for* `'' @ name @ str ''`\<newline>\<newline>*Transcript:*\<newline>>>> '' @
     take 1500 transcript @ (if length transcript > 1500 then str ''...'' else []) @
     str ''\<newline>\<newline>*Assessment:*\<newline>''"
  have "reply_text name transcript analysis = ?pre @ analysis"
    by (simp add: reply_text_def)
  moreover have "py_in name ?pre"
    unfolding py_in_iff by blast
  moreover have "py_in (take 1500 transcript) ?pre"
    unfolding py_in_iff by (metis append.assoc)
  ultimately show ?thesis by blast
qed

text \<open>
  C8, as the code has it. An analysis text without any glyph of the table gives the empty
  grade list in both pipelines and no reaction is attempted. The file-upload pipeline then
  posts the reply, which ends with the whole analysis text, and raises only if that
  \<^verbatim>\<open>say\<close> raises. The URL pipeline posts the same reply exactly when \<^verbatim>\<open>ANALYZE_ONLY\<close> is off and
  \<open>client\<close>, \<open>say\<close>, the timestamp and the channel are all present; otherwise it returns the
  analysis without any call.
\<close>

theorem indeterminate_grade:
  assumes "\<forall>(icon, emoji_name) \<in> set GRADE_EMOJI_MAP_qa_bot. \<not> py_in icon analysis"
  shows "extract_grade_emojis GRADE_EMOJI_MAP_qa_bot analysis = [] \<and>
         extract_grade_emojis GRADE_EMOJI_MAP_extra analysis = [] \<and>
         process_wav_url_emit cfg url ts ch osay oclient transcript analysis w =
           (if \<not> ANALYZE_ONLY cfg \<and> oclient \<noteq> None \<and> osay \<noteq> None \<and> ts \<noteq> [] \<and> ch \<noteq> []
            then (case the osay w (reply_text (short_url url) transcript analysis) ts of
                    None \<Rightarrow> Inr analysis
                  | Some e \<Rightarrow> Inl e,
                  emit (Say (reply_text (short_url url) transcript analysis) ts) w)
            else (Inr analysis, w)) \<and>
         extra_emit say client ch ts filename transcript analysis w =
           (say w (reply_text filename transcript analysis) ts,
            emit (Say (reply_text filename transcript analysis) ts) w) \<and>
         (\<exists>pre. reply_text filename transcript analysis = pre @ analysis)"
proof -
  have q: "extract_grade_emojis GRADE_EMOJI_MAP_qa_bot analysis = []"
    using assms by (rule extract_none)
  have "\<forall>(icon, emoji_name) \<in> set GRADE_EMOJI_MAP_extra. \<not> py_in icon analysis"
    using assms by (simp add: GRADE_EMOJI_MAP_qa_bot_def GRADE_EMOJI_MAP_extra_def)
  then have x: "extract_grade_emojis GRADE_EMOJI_MAP_extra analysis = []"
    by (rule extract_none)
  have 1: "process_wav_url_emit cfg url ts ch osay oclient transcript analysis w =
           (if \<not> ANALYZE_ONLY cfg \<and> oclient \<noteq> None \<and> osay \<noteq> None \<and> ts \<noteq> [] \<and> ch \<noteq> []
            then (case the osay w (reply_text (short_url url) transcript analysis) ts of
                    None \<Rightarrow> Inr analysis
                  | Some e \<Rightarrow> Inl e,
                  emit (Say (reply_text (short_url url) transcript analysis) ts) w)
            else (Inr analysis, w))"
    by (simp add: process_wav_url_emit_def q say_call_def split: option.splits)
  have 2: "extra_emit say client ch ts filename transcript analysis w =
           (say w (reply_text filename transcript analysis) ts,
            emit (Say (reply_text filename transcript analysis) ts) w)"
    by (simp add: extra_emit_def x say_call_def)
  show ?thesis
    using q x 1 2 reply_text_ends_with_analysis [of filename transcript analysis] by blast
qed

lemma no_glyph_fine:
  "\<forall>(icon, emoji_name) \<in> set GRADE_EMOJI_MAP_qa_bot. \<not> py_in icon (str ''The call was fine.'')"
  by (simp add: GRADE_EMOJI_MAP_qa_bot_def str_def)

theorem indeterminate_grade_witness:
  "extract_grade_emojis GRADE_EMOJI_MAP_qa_bot (str ''The call was fine.'') = [] \<and>
   process_wav_url_emit config_production (str ''https://h/a.wav'') (str ''1.0'') (str ''C0123ABCDEF'')
       (Some say_ok) (Some client_ok) (str ''thank you for calling'') (str ''The call was fine.'') world0 =
     (Inr (str ''The call was fine.''),
      emit (Say (reply_text (short_url (str ''https://h/a.wav'')) (str ''thank you for calling'')
                   (str ''The call was fine.'')) (str ''1.0'')) world0) \<and>
   extra_emit say_ok client_ok (str ''C0123ABCDEF'') (str ''1.0'') (str ''call.wav'')
       (str ''thank you for calling'') (str ''The call was fine.'') world0 =
     (None,
      emit (Say (reply_text (str ''call.wav'') (str ''thank you for calling'') (str ''The call was fine.''))
              (str ''1.0'')) world0)"
proof -
  note t = indeterminate_grade [OF no_glyph_fine, where cfg = config_production
      and url = "str ''https://h/a.wav''" and ts = "str ''1.0''" and ch = "str ''C0123ABCDEF''"
      and osay = "Some say_ok" and oclient = "Some client_ok" and say = say_ok and client = client_ok
      and filename = "str ''call.wav''" and transcript = "str ''thank you for calling''" and w = world0]
  have c: "\<not> ANALYZE_ONLY config_production \<and> Some client_ok \<noteq> None \<and> Some say_ok \<noteq> None \<and>
           str ''1.0'' \<noteq> [] \<and> str ''C0123ABCDEF'' \<noteq> []"
    by (simp add: config_production_def config_source_def str_def)
  have q: "process_wav_url_emit config_production (str ''https://h/a.wav'') (str ''1.0'') (str ''C0123ABCDEF'')
       (Some say_ok) (Some client_ok) (str ''thank you for calling'') (str ''The call was fine.'') world0 =
     (Inr (str ''The call was fine.''),
      emit (Say (reply_text (short_url (str ''https://h/a.wav'')) (str ''thank you for calling'')
                   (str ''The call was fine.'')) (str ''1.0'')) world0)"
    using t [THEN conjunct2, THEN conjunct2, THEN conjunct1] c
    by (simp add: say_ok_def)
  have x: "extra_emit say_ok client_ok (str ''C0123ABCDEF'') (str ''1.0'') (str ''call.wav'')
       (str ''thank you for calling'') (str ''The call was fine.'') world0 =
     (None,
      emit (Say (reply_text (str ''call.wav'') (str ''thank you for calling'') (str ''The call was fine.''))
              (str ''1.0'')) world0)"
    using t [THEN conjunct2, THEN conjunct2, THEN conjunct2, THEN conjunct1]
    by (simp add: say_ok_def)
  show ?thesis using t [THEN conjunct1] q x by blast
qed

text \<open>
  C8 as stated fails in the URL pipeline as the source configures it (\<^verbatim>\<open>ANALYZE_ONLY = True\<close>):
  with \<open>say\<close> and \<open>client\<close> present, an analysis without glyph is returned and no reply
  is posted.
\<close>

theorem indeterminate_grade_counterexample:
  "extract_grade_emojis GRADE_EMOJI_MAP_qa_bot (str ''The call was fine.'') = [] \<and>
   ANALYZE_ONLY config_source \<and>
   process_wav_url_emit config_source (str ''https://h/a.wav'') (str ''1.0'') (str ''C0123ABCDEF'')
       (Some say_ok) (Some client_ok) (str ''thank you for calling'') (str ''The call was fine.'') world0 =
     (Inr (str ''The call was fine.''), world0) \<and>
   filter is_say (calls world0) = []"
  using extract_none [OF no_glyph_fine]
  by (simp add: process_wav_url_emit_def config_source_def world0_def)

section \<open>The no-speech outcome\<close>

lemma qa_transcript_try:
  assumes "qa_transcript env url w = Some (p, t)"
  shows "\<exists>w2. calls w2 = calls w @ [NamedTemporaryFile p, RequestsGet url False] \<and>
              process_wav_url_try cfg env url ts ch say client w =
                (fst (process_wav_url_transcribed cfg env url ts ch say client t w2), Some p,
                 snd (process_wav_url_transcribed cfg env url ts ch say client t w2))"
proof -
  from assms obtain w2 where n: "new_temp env w = Inr p"
    and d: "download_wav env url p (create_temp p w) = (None, w2)"
    and t: "transcribe_wav_whisper env w2 p = Inr t"
    by (auto simp: qa_transcript_def split: sum.splits prod.splits option.splits)
  have "calls w2 = calls w @ [NamedTemporaryFile p, RequestsGet url False]"
    using d calls_download [of env False url p "create_temp p w"]
    by (simp add: download_wav_def calls_create_temp)
  moreover have "process_wav_url_try cfg env url ts ch say client w =
                (fst (process_wav_url_transcribed cfg env url ts ch say client t w2), Some p,
                 snd (process_wav_url_transcribed cfg env url ts ch say client t w2))"
    using n d t by (simp add: process_wav_url_try_def split: prod.splits)
  ultimately show ?thesis by blast
qed

lemma extra_transcript_try:
  assumes "extra_transcript env url w = Some (p, t)"
  shows "\<exists>w2. calls w2 = calls w @ [NamedTemporaryFile p, RequestsGet url True] \<and>
              extra_try cfg env say client ch ts filename url tmp0 w =
                (fst (extra_transcribed cfg env say client ch ts filename t w2), Some p,
                 snd (extra_transcribed cfg env say client ch ts filename t w2))"
proof -
  from assms obtain w2 where n: "new_temp env w = Inr p"
    and d: "download_slack_file env url p (create_temp p w) = (None, w2)"
    and t: "transcribe_wav env w2 p = Inr t"
    by (auto simp: extra_transcript_def split: sum.splits prod.splits option.splits)
  have "calls w2 = calls w @ [NamedTemporaryFile p, RequestsGet url True]"
    using d calls_download [of env True url p "create_temp p w"]
    by (simp add: download_slack_file_def calls_create_temp)
  moreover have "extra_try cfg env say client ch ts filename url tmp0 w =
                (fst (extra_transcribed cfg env say client ch ts filename t w2), Some p,
                 snd (extra_transcribed cfg env say client ch ts filename t w2))"
    using n d t by (simp add: extra_try_def split: prod.splits)
  ultimately show ?thesis by blast
qed

lemma qa_no_speech_run:
  assumes "qa_transcript env url w = Some (p, t)" and "p \<noteq> []"
    and "t = [] \<or> length (py_strip t) < 10"
  shows "fst (process_wav_url cfg env url ts ch say client w) = Some no_speech_detected \<and>
         new_calls w (snd (process_wav_url cfg env url ts ch say client w)) =
           [NamedTemporaryFile p, RequestsGet url False] @
           (if \<not> ANALYZE_ONLY cfg \<and> client \<noteq> None \<and> ts \<noteq> [] \<and> ch \<noteq> []
            then [ReactionsAdd ch (str ''x'') ts] else []) @
           [Unlink p]"
proof -
  from qa_transcript_try [OF assms(1), of cfg ts ch say client]
  obtain w2 where c: "calls w2 = calls w @ [NamedTemporaryFile p, RequestsGet url False]"
    and t: "process_wav_url_try cfg env url ts ch say client w =
                (fst (process_wav_url_transcribed cfg env url ts ch say client t w2), Some p,
                 snd (process_wav_url_transcribed cfg env url ts ch say client t w2))"
    by blast
  show ?thesis
    using assms(2) c
    by (simp add: process_wav_url_def t qa_transcribed_unusable [OF assms(3)] new_calls_def
        calls_unlink_quiet)
qed

lemma extra_no_speech_run:
  assumes "extra_transcript env url (add_reaction_quiet client ch hourglass ts w) = Some (p, [])"
    and "\<forall>w'. say w' (could_not_transcribe filename) ts = None"
  shows "case extra_run cfg env say client ch ts filename url tmp0 w of
           (raised, tmp_path, w') \<Rightarrow>
             raised = None \<and>
             new_calls w w' =
               [ReactionsAdd ch hourglass ts, NamedTemporaryFile p, RequestsGet url True,
                Say (could_not_transcribe filename) ts, Unlink p, ReactionsRemove ch hourglass ts]"
proof -
  let ?w0 = "add_reaction_quiet client ch hourglass ts w"
  from extra_transcript_try [OF assms(1), of cfg say client ch ts filename tmp0]
  obtain w2 where c: "calls w2 = calls ?w0 @ [NamedTemporaryFile p, RequestsGet url True]"
    and t: "extra_try cfg env say client ch ts filename url tmp0 ?w0 =
                (fst (extra_transcribed cfg env say client ch ts filename [] w2), Some p,
                 snd (extra_transcribed cfg env say client ch ts filename [] w2))"
    by blast
  have t': "extra_try cfg env say client ch ts filename url tmp0 (emit (ReactionsAdd ch hourglass ts) w) =
                (fst (extra_transcribed cfg env say client ch ts filename [] w2), Some p,
                 snd (extra_transcribed cfg env say client ch ts filename [] w2))"
    using t by simp
  show ?thesis
    using c assms(2)
    by (simp add: extra_run_def t' extra_transcribed_empty new_calls_def calls_unlink_quiet)
qed

lemma extra_short_run:
  assumes "extra_transcript env url (add_reaction_quiet client ch hourglass ts w) = Some (p, t)"
    and "t \<noteq> []"
  shows "\<exists>cs. calls (snd (snd (extra_run cfg env say client ch ts filename url tmp0 w))) =
           calls w @ [ReactionsAdd ch hourglass ts, NamedTemporaryFile p, RequestsGet url True,
                      OllamaGenerate (OLLAMA_MODEL cfg)
                        (fst (QA_PROMPT_TEMPLATE cfg) @ t @ snd (QA_PROMPT_TEMPLATE cfg))] @ cs"
proof -
  let ?w0 = "add_reaction_quiet client ch hourglass ts w"
  from extra_transcript_try [OF assms(1), of cfg say client ch ts filename tmp0]
  obtain w2 where c: "calls w2 = calls ?w0 @ [NamedTemporaryFile p, RequestsGet url True]"
    and t: "extra_try cfg env say client ch ts filename url tmp0 ?w0 =
                (fst (extra_transcribed cfg env say client ch ts filename t w2), Some p,
                 snd (extra_transcribed cfg env say client ch ts filename t w2))"
    by blast
  from extra_transcribed_nonempty [OF assms(2), of cfg env say client ch ts filename w2]
  obtain cs where cs: "calls (snd (extra_transcribed cfg env say client ch ts filename t w2)) =
      calls w2 @ OllamaGenerate (OLLAMA_MODEL cfg)
                        (fst (QA_PROMPT_TEMPLATE cfg) @ t @ snd (QA_PROMPT_TEMPLATE cfg)) # cs"
    by blast
  have t': "extra_try cfg env say client ch ts filename url tmp0 (emit (ReactionsAdd ch hourglass ts) w) =
                (fst (extra_transcribed cfg env say client ch ts filename t w2), Some p,
                 snd (extra_transcribed cfg env say client ch ts filename t w2))"
    using t by simp
  show ?thesis
  proof (cases "fst (extra_transcribed cfg env say client ch ts filename t w2)")
    case None
    then show ?thesis using c cs
      by (simp add: extra_run_def t' calls_unlink_quiet)
  next
    case (Some e)
    then show ?thesis using c cs
      by (simp add: extra_run_def t' calls_unlink_quiet say_call_def)
  qed
qed

lemma qa_transcript_silent:
  "qa_transcript env_silent (str ''https://h/a.wav'') world0 = Some (str ''/tmp/t.wav'', [])"
  by (simp add: qa_transcript_def env_silent_def env_ok_def download_wav_def download_def
      raise_for_status_def transcribe_wav_whisper_def default_str_def py_strip_def Let_def)

lemma extra_transcript_silent:
  "extra_transcript env_silent (str ''https://files/call.wav'')
     (add_reaction_quiet client_ok (str ''C0123ABCDEF'') hourglass (str ''1.0'') world0) =
   Some (str ''/tmp/t.wav'', [])"
  by (simp add: extra_transcript_def env_silent_def env_ok_def download_slack_file_def download_def
      raise_for_status_def transcribe_wav_def py_strip_def Let_def)

lemma extra_transcript_short:
  "extra_transcript env_short (str ''https://files/call.wav'')
     (add_reaction_quiet client_ok (str ''C0123ABCDEF'') hourglass (str ''1.0'') world0) =
   Some (str ''/tmp/t.wav'', str ''hi'')"
  by (simp add: extra_transcript_def env_short_def env_ok_def download_slack_file_def download_def
      raise_for_status_def transcribe_wav_def strip_hi Let_def)

lemma tmp_nonempty: "str ''/tmp/t.wav'' \<noteq> []"
  by (simp add: str_def)


text \<open>
  C2, as the code has it. A run of the URL pipeline whose transcript is empty or has a
  stripped length below 10 returns the no-speech text, not \<^verbatim>\<open>None\<close>; after the download its
  only calls are the \<^verbatim>\<open>x\<close> marker reaction, made exactly when \<^verbatim>\<open>ANALYZE_ONLY\<close> is off and
  \<open>client\<close>, timestamp and channel are present, and the unlink of the temporary file: no
  grade reaction, no call of the model and no reply. A run of the file-upload pipeline
  whose transcript is empty, when posting the notice does not raise, raises nothing and
  its calls are the hourglass, the temporary file, the download, one reply in the
  message's thread saying that no speech could be transcribed, the unlink and the removal
  of the hourglass.
\<close>

theorem no_speech_outcome:
  "(qa_transcript env url w = Some (p, t) \<and> p \<noteq> [] \<and> (t = [] \<or> length (py_strip t) < 10) \<longrightarrow>
      fst (process_wav_url cfg env url ts ch osay oclient w) = Some no_speech_detected \<and>
      new_calls w (snd (process_wav_url cfg env url ts ch osay oclient w)) =
        [NamedTemporaryFile p, RequestsGet url False] @
        (if \<not> ANALYZE_ONLY cfg \<and> oclient \<noteq> None \<and> ts \<noteq> [] \<and> ch \<noteq> []
         then [ReactionsAdd ch (str ''x'') ts] else []) @
        [Unlink p]) \<and>
   (extra_transcript env url (add_reaction_quiet client ch hourglass ts w) = Some (p, []) \<and>
    (\<forall>w'. say w' (could_not_transcribe filename) ts = None) \<longrightarrow>
      (case extra_run cfg env say client ch ts filename url tmp0 w of
         (raised, tmp_path, w') \<Rightarrow>
           raised = None \<and>
           new_calls w w' =
             [ReactionsAdd ch hourglass ts, NamedTemporaryFile p, RequestsGet url True,
              Say (could_not_transcribe filename) ts, Unlink p, ReactionsRemove ch hourglass ts]))"
proof (intro conjI impI)
  assume h: "qa_transcript env url w = Some (p, t) \<and> p \<noteq> [] \<and> (t = [] \<or> length (py_strip t) < 10)"
  then have a: "qa_transcript env url w = Some (p, t)" and b: "p \<noteq> []"
    and c: "t = [] \<or> length (py_strip t) < 10" by blast+
  from qa_no_speech_run [OF a b c, of cfg ts ch osay oclient]
  show "fst (process_wav_url cfg env url ts ch osay oclient w) = Some no_speech_detected"
    and "new_calls w (snd (process_wav_url cfg env url ts ch osay oclient w)) =
        [NamedTemporaryFile p, RequestsGet url False] @
        (if \<not> ANALYZE_ONLY cfg \<and> oclient \<noteq> None \<and> ts \<noteq> [] \<and> ch \<noteq> []
         then [ReactionsAdd ch (str ''x'') ts] else []) @
        [Unlink p]"
    by blast+
next
  assume h: "extra_transcript env url (add_reaction_quiet client ch hourglass ts w) = Some (p, []) \<and>
    (\<forall>w'. say w' (could_not_transcribe filename) ts = None)"
  then have a: "extra_transcript env url (add_reaction_quiet client ch hourglass ts w) = Some (p, [])"
    and b: "\<forall>w'. say w' (could_not_transcribe filename) ts = None" by blast+
  show "case extra_run cfg env say client ch ts filename url tmp0 w of
         (raised, tmp_path, w') \<Rightarrow>
           raised = None \<and>
           new_calls w w' =
             [ReactionsAdd ch hourglass ts, NamedTemporaryFile p, RequestsGet url True,
              Say (could_not_transcribe filename) ts, Unlink p, ReactionsRemove ch hourglass ts]"
    using a b by (rule extra_no_speech_run)
qed


theorem no_speech_outcome_witness:
  "qa_transcript env_silent (str ''https://h/a.wav'') world0 = Some (str ''/tmp/t.wav'', []) \<and>
   str ''/tmp/t.wav'' \<noteq> [] \<and>
   fst (process_wav_url config_production env_silent (str ''https://h/a.wav'') (str ''1.0'')
          (str ''C0123ABCDEF'') (Some say_ok) (Some client_ok) world0) = Some no_speech_detected \<and>
   new_calls world0 (snd (process_wav_url config_production env_silent (str ''https://h/a.wav'') (str ''1.0'')
          (str ''C0123ABCDEF'') (Some say_ok) (Some client_ok) world0)) =
     [NamedTemporaryFile (str ''/tmp/t.wav''), RequestsGet (str ''https://h/a.wav'') False,
      ReactionsAdd (str ''C0123ABCDEF'') (str ''x'') (str ''1.0''), Unlink (str ''/tmp/t.wav'')] \<and>
   extra_transcript env_silent (str ''https://files/call.wav'')
     (add_reaction_quiet client_ok (str ''C0123ABCDEF'') hourglass (str ''1.0'') world0) =
     Some (str ''/tmp/t.wav'', []) \<and>
   (\<forall>w'. say_ok w' (could_not_transcribe (str ''call.wav'')) (str ''1.0'') = None) \<and>
   (case extra_run config_source env_silent say_ok client_ok (str ''C0123ABCDEF'') (str ''1.0'')
           (str ''call.wav'') (str ''https://files/call.wav'') None world0 of
      (raised, tmp_path, w') \<Rightarrow>
        raised = None \<and>
        new_calls world0 w' =
          [ReactionsAdd (str ''C0123ABCDEF'') hourglass (str ''1.0''),
           NamedTemporaryFile (str ''/tmp/t.wav''), RequestsGet (str ''https://files/call.wav'') True,
           Say (could_not_transcribe (str ''call.wav'')) (str ''1.0''), Unlink (str ''/tmp/t.wav''),
           ReactionsRemove (str ''C0123ABCDEF'') hourglass (str ''1.0'')])"
proof -
  have s: "\<forall>w'. say_ok w' (could_not_transcribe (str ''call.wav'')) (str ''1.0'') = None"
    by (simp add: say_ok_def)
  have c: "\<not> ANALYZE_ONLY config_production \<and> Some client_ok \<noteq> None \<and> str ''1.0'' \<noteq> [] \<and>
           str ''C0123ABCDEF'' \<noteq> []"
    by (simp add: config_production_def config_source_def str_def)
  note q = no_speech_outcome [where env = env_silent and url = "str ''https://h/a.wav''" and w = world0
      and p = "str ''/tmp/t.wav''" and t = "[]" and cfg = config_production and ts = "str ''1.0''"
      and ch = "str ''C0123ABCDEF''" and osay = "Some say_ok" and oclient = "Some client_ok",
      THEN conjunct1, rule_format]
  note x = no_speech_outcome [where env = env_silent and url = "str ''https://files/call.wav''"
      and w = world0 and p = "str ''/tmp/t.wav''" and cfg = config_source and ts = "str ''1.0''"
      and ch = "str ''C0123ABCDEF''" and say = say_ok and client = client_ok
      and filename = "str ''call.wav''" and ?tmp0.0 = None, THEN conjunct2, rule_format]
  have q1: "fst (process_wav_url config_production env_silent (str ''https://h/a.wav'') (str ''1.0'')
          (str ''C0123ABCDEF'') (Some say_ok) (Some client_ok) world0) = Some no_speech_detected"
    using q qa_transcript_silent tmp_nonempty by blast
  have q2: "new_calls world0 (snd (process_wav_url config_production env_silent (str ''https://h/a.wav'') (str ''1.0'')
          (str ''C0123ABCDEF'') (Some say_ok) (Some client_ok) world0)) =
     [NamedTemporaryFile (str ''/tmp/t.wav''), RequestsGet (str ''https://h/a.wav'') False,
      ReactionsAdd (str ''C0123ABCDEF'') (str ''x'') (str ''1.0''), Unlink (str ''/tmp/t.wav'')]"
  proof -
    have "new_calls world0 (snd (process_wav_url config_production env_silent (str ''https://h/a.wav'') (str ''1.0'')
          (str ''C0123ABCDEF'') (Some say_ok) (Some client_ok) world0)) =
        [NamedTemporaryFile (str ''/tmp/t.wav''), RequestsGet (str ''https://h/a.wav'') False] @
        (if \<not> ANALYZE_ONLY config_production \<and> Some client_ok \<noteq> None \<and> str ''1.0'' \<noteq> [] \<and>
            str ''C0123ABCDEF'' \<noteq> []
         then [ReactionsAdd (str ''C0123ABCDEF'') (str ''x'') (str ''1.0'')] else []) @
        [Unlink (str ''/tmp/t.wav'')]"
      using q qa_transcript_silent tmp_nonempty by blast
    then show ?thesis using c by simp
  qed
  have x1: "case extra_run config_source env_silent say_ok client_ok (str ''C0123ABCDEF'') (str ''1.0'')
           (str ''call.wav'') (str ''https://files/call.wav'') None world0 of
      (raised, tmp_path, w') \<Rightarrow>
        raised = None \<and>
        new_calls world0 w' =
          [ReactionsAdd (str ''C0123ABCDEF'') hourglass (str ''1.0''),
           NamedTemporaryFile (str ''/tmp/t.wav''), RequestsGet (str ''https://files/call.wav'') True,
           Say (could_not_transcribe (str ''call.wav'')) (str ''1.0''), Unlink (str ''/tmp/t.wav''),
           ReactionsRemove (str ''C0123ABCDEF'') hourglass (str ''1.0'')]"
    by (rule x) (intro conjI, rule extra_transcript_silent, rule s)
  show ?thesis
    by (intro conjI) (rule qa_transcript_silent tmp_nonempty q1 q2 extra_transcript_silent s x1)+
qed


text \<open>
  C2 as stated fails twice. In the URL pipeline, in production mode with \<open>say\<close> and
  \<open>client\<close> present, the empty transcript gives no reply at all. In the file-upload
  pipeline the transcript \<^verbatim>\<open>hi\<close>, below the threshold, does not take the no-speech path:
  the call after the download is the model's.
\<close>

theorem no_speech_outcome_counterexample:
  "qa_transcript env_silent (str ''https://h/a.wav'') world0 = Some (str ''/tmp/t.wav'', []) \<and>
   filter is_say
     (new_calls world0 (snd (process_wav_url config_production env_silent (str ''https://h/a.wav'')
        (str ''1.0'') (str ''C0123ABCDEF'') (Some say_ok) (Some client_ok) world0))) = [] \<and>
   extra_transcript env_short (str ''https://files/call.wav'')
     (add_reaction_quiet client_ok (str ''C0123ABCDEF'') hourglass (str ''1.0'') world0) =
     Some (str ''/tmp/t.wav'', str ''hi'') \<and>
   length (py_strip (str ''hi'')) < 10 \<and>
   take 4 (calls (snd (snd (extra_run config_source env_short say_ok client_ok (str ''C0123ABCDEF'')
             (str ''1.0'') (str ''call.wav'') (str ''https://files/call.wav'') None world0)))) =
     [ReactionsAdd (str ''C0123ABCDEF'') hourglass (str ''1.0''),
      NamedTemporaryFile (str ''/tmp/t.wav''), RequestsGet (str ''https://files/call.wav'') True,
      OllamaGenerate (str ''llama'') (str ''TRANSCRIPT: '' @ str ''hi'' @ str '' GRADE:'')]"
proof -
  have e: "([]::ustr) = [] \<or> length (py_strip []) < 10" by simp
  from qa_no_speech_run [OF qa_transcript_silent tmp_nonempty e, of config_production "str ''1.0''"
      "str ''C0123ABCDEF''" "Some say_ok" "Some client_ok"]
  have a: "filter is_say
     (new_calls world0 (snd (process_wav_url config_production env_silent (str ''https://h/a.wav'')
        (str ''1.0'') (str ''C0123ABCDEF'') (Some say_ok) (Some client_ok) world0))) = []"
    by simp
  have n: "str ''hi'' \<noteq> []" by (simp add: str_def)
  from extra_short_run [OF extra_transcript_short n, of config_source say_ok "str ''call.wav''" None]
  obtain cs where "calls (snd (snd (extra_run config_source env_short say_ok client_ok (str ''C0123ABCDEF'')
             (str ''1.0'') (str ''call.wav'') (str ''https://files/call.wav'') None world0))) =
      calls world0 @ [ReactionsAdd (str ''C0123ABCDEF'') hourglass (str ''1.0''),
         NamedTemporaryFile (str ''/tmp/t.wav''), RequestsGet (str ''https://files/call.wav'') True,
         OllamaGenerate (OLLAMA_MODEL config_source)
           (fst (QA_PROMPT_TEMPLATE config_source) @ str ''hi'' @ snd (QA_PROMPT_TEMPLATE config_source))] @ cs"
    by blast
  then have b: "take 4 (calls (snd (snd (extra_run config_source env_short say_ok client_ok (str ''C0123ABCDEF'')
             (str ''1.0'') (str ''call.wav'') (str ''https://files/call.wav'') None world0)))) =
     [ReactionsAdd (str ''C0123ABCDEF'') hourglass (str ''1.0''),
      NamedTemporaryFile (str ''/tmp/t.wav''), RequestsGet (str ''https://files/call.wav'') True,
      OllamaGenerate (str ''llama'') (str ''TRANSCRIPT: '' @ str ''hi'' @ str '' GRADE:'')]"
    by (simp add: world0_def config_source_def)
  have c: "length (py_strip (str ''hi'')) < 10"
    by (simp add: strip_hi) (simp add: str_def)
  show ?thesis
    by (intro conjI) (rule qa_transcript_silent a extra_transcript_short c b)+
qed

section \<open>Exceptions of the stages\<close>

lemma qa_stage_raises_try:
  assumes "qa_stage_raises cfg env url w e"
  shows "\<exists>p w1 cs. process_wav_url_try cfg env url ts ch say client w = (Inl e, Some p, w1) \<and>
           calls w1 = calls w @ [NamedTemporaryFile p, RequestsGet url False] @ cs \<and>
           filter is_say cs = []"
proof -
  from assms obtain p where n: "new_temp env w = Inr p"
    by (auto simp: qa_stage_raises_def split: sum.splits)
  obtain d w2 where d: "download_wav env url p (create_temp p w) = (d, w2)"
    by (cases "download_wav env url p (create_temp p w)")
  then have w2: "calls w2 = calls w @ [NamedTemporaryFile p, RequestsGet url False]"
    using calls_download [of env False url p "create_temp p w"]
    by (simp add: download_wav_def calls_create_temp)
  show ?thesis
  proof (cases d)
    case (Some x)
    then have "x = e" using assms n d by (simp add: qa_stage_raises_def)
    then show ?thesis using n d Some w2 by (simp add: process_wav_url_try_def)
  next
    case None
    show ?thesis
    proof (cases "transcribe_wav_whisper env w2 p")
      case (Inl x)
      then have "x = e" using assms n d None by (simp add: qa_stage_raises_def)
      then show ?thesis using n d None Inl w2 by (simp add: process_wav_url_try_def)
    next
      case (Inr t)
      then have u: "\<not> (t = [] \<or> length (py_strip t) < 10)"
        and a: "fst (analyze_transcript env (OLLAMA_MODEL cfg) (QA_PROMPT_TEMPLATE cfg) t w2) = Inl e"
        using assms n d None by (simp_all add: qa_stage_raises_def)
      obtain w3 where a3: "analyze_transcript env (OLLAMA_MODEL cfg) (QA_PROMPT_TEMPLATE cfg) t w2 = (Inl e, w3)"
        using a by (cases "analyze_transcript env (OLLAMA_MODEL cfg) (QA_PROMPT_TEMPLATE cfg) t w2") simp
      then have w3: "calls w3 = calls w2 @ [OllamaGenerate (OLLAMA_MODEL cfg)
                       (fst (QA_PROMPT_TEMPLATE cfg) @ t @ snd (QA_PROMPT_TEMPLATE cfg))]"
        using analyze_transcript_world [of env "OLLAMA_MODEL cfg" "QA_PROMPT_TEMPLATE cfg" t w2] by simp
      have "process_wav_url_transcribed cfg env url ts ch say client t w2 = (Inl e, w3)"
        using u a3 by (simp add: process_wav_url_transcribed_def)
      then show ?thesis using n d None Inr w2 w3 by (simp add: process_wav_url_try_def)
    qed
  qed
qed

lemma extra_stage_raises_try:
  assumes "extra_stage_raises cfg env url w e"
  shows "\<exists>p w1 cs. extra_try cfg env say client ch ts filename url tmp0 w = (Some e, Some p, w1) \<and>
           calls w1 = calls w @ [NamedTemporaryFile p, RequestsGet url True] @ cs \<and>
           filter is_say cs = []"
proof -
  from assms obtain p where n: "new_temp env w = Inr p"
    by (auto simp: extra_stage_raises_def split: sum.splits)
  obtain d w2 where d: "download_slack_file env url p (create_temp p w) = (d, w2)"
    by (cases "download_slack_file env url p (create_temp p w)")
  then have w2: "calls w2 = calls w @ [NamedTemporaryFile p, RequestsGet url True]"
    using calls_download [of env True url p "create_temp p w"]
    by (simp add: download_slack_file_def calls_create_temp)
  show ?thesis
  proof (cases d)
    case (Some x)
    then have "x = e" using assms n d by (simp add: extra_stage_raises_def)
    then show ?thesis using n d Some w2 by (simp add: extra_try_def)
  next
    case None
    show ?thesis
    proof (cases "transcribe_wav env w2 p")
      case (Inl x)
      then have "x = e" using assms n d None by (simp add: extra_stage_raises_def)
      then show ?thesis using n d None Inl w2 by (simp add: extra_try_def)
    next
      case (Inr t)
      then have u: "t \<noteq> []"
        and a: "fst (analyze_transcript env (OLLAMA_MODEL cfg) (QA_PROMPT_TEMPLATE cfg) t w2) = Inl e"
        using assms n d None by (simp_all add: extra_stage_raises_def)
      obtain w3 where a3: "analyze_transcript env (OLLAMA_MODEL cfg) (QA_PROMPT_TEMPLATE cfg) t w2 = (Inl e, w3)"
        using a by (cases "analyze_transcript env (OLLAMA_MODEL cfg) (QA_PROMPT_TEMPLATE cfg) t w2") simp
      then have w3: "calls w3 = calls w2 @ [OllamaGenerate (OLLAMA_MODEL cfg)
                       (fst (QA_PROMPT_TEMPLATE cfg) @ t @ snd (QA_PROMPT_TEMPLATE cfg))]"
        using analyze_transcript_world [of env "OLLAMA_MODEL cfg" "QA_PROMPT_TEMPLATE cfg" t w2] by simp
      have "extra_transcribed cfg env say client ch ts filename t w2 = (Some e, w3)"
        using u a3 by (simp add: extra_transcribed_def)
      then show ?thesis using n d None Inr w2 w3 by (simp add: extra_try_def)
    qed
  qed
qed

lemma qa_stage_raises_run:
  assumes "qa_stage_raises cfg env url w e"
  shows "fst (process_wav_url cfg env url ts ch say client w) = None \<and>
         LoggerException (error_processing url e) \<in>
           set (new_calls w (snd (process_wav_url cfg env url ts ch say client w))) \<and>
         filter is_say (new_calls w (snd (process_wav_url cfg env url ts ch say client w))) = []"
proof -
  from qa_stage_raises_try [OF assms, of ts ch say client]
  obtain p w1 cs where t: "process_wav_url_try cfg env url ts ch say client w = (Inl e, Some p, w1)"
    and c: "calls w1 = calls w @ [NamedTemporaryFile p, RequestsGet url False] @ cs"
    and f: "filter is_say cs = []"
    by blast
  show ?thesis
    using c f by (cases "p = []") (simp_all add: process_wav_url_def t new_calls_def calls_unlink_quiet)
qed

lemma extra_stage_raises_run:
  assumes "extra_stage_raises cfg env url (add_reaction_quiet client ch hourglass ts w) e"
  shows "case extra_run cfg env say client ch ts filename url tmp0 w of
           (raised, tmp_path, w') \<Rightarrow>
             LoggerException (error_logged filename e) \<in> set (new_calls w w') \<and>
             filter is_say (new_calls w w') = [Say (error_analyzing filename e) ts] \<and>
             ((\<forall>w''. say w'' (error_analyzing filename e) ts = None) \<longrightarrow> raised = None)"
proof -
  from extra_stage_raises_try [OF assms, of say client ch ts filename tmp0]
  obtain p w1 cs where t: "extra_try cfg env say client ch ts filename url tmp0
        (add_reaction_quiet client ch hourglass ts w) = (Some e, Some p, w1)"
    and c: "calls w1 = calls (add_reaction_quiet client ch hourglass ts w) @
              [NamedTemporaryFile p, RequestsGet url True] @ cs"
    and f: "filter is_say cs = []"
    by blast
  have t': "extra_try cfg env say client ch ts filename url tmp0 (emit (ReactionsAdd ch hourglass ts) w) =
      (Some e, Some p, w1)"
    using t by simp
  show ?thesis
    using c f by (simp add: extra_run_def t' new_calls_def calls_unlink_quiet say_call_def)
qed

lemma notice_names_file_and_error:
  "py_in filename (error_analyzing filename e) \<and> py_in (exc_str e) (error_analyzing filename e) \<and>
   py_in filename (error_logged filename e) \<and> py_in (exc_str e) (error_logged filename e) \<and>
   py_in url (error_processing url e) \<and> py_in (exc_str e) (error_processing url e)"
proof -
  have 1: "py_in filename (error_analyzing filename e)"
    unfolding py_in_iff error_analyzing_def by (metis append.assoc)
  have 2: "py_in (exc_str e) (error_analyzing filename e)"
    unfolding py_in_iff error_analyzing_def by (metis append.assoc append_Nil2)
  have 3: "py_in filename (error_logged filename e)"
    unfolding py_in_iff error_logged_def by (metis append.assoc)
  have 4: "py_in (exc_str e) (error_logged filename e)"
    unfolding py_in_iff error_logged_def by (metis append.assoc append_Nil2)
  have 5: "py_in url (error_processing url e)"
    unfolding py_in_iff error_processing_def by (metis append.assoc)
  have 6: "py_in (exc_str e) (error_processing url e)"
    unfolding py_in_iff error_processing_def by (metis append.assoc append_Nil2)
  show ?thesis using 1 2 3 4 5 6 by blast
qed

lemma qa_download_raises:
  "qa_stage_raises config_production env_download_fails (str ''https://h/a.wav'') world0
     (PyException (str ''timed out''))"
  by (simp add: qa_stage_raises_def env_download_fails_def env_ok_def download_wav_def download_def
      Let_def)

lemma extra_model_raises:
  "extra_stage_raises config_source env_model_fails (str ''https://files/call.wav'')
     (add_reaction_quiet client_ok (str ''C0123ABCDEF'') hourglass (str ''1.0'') world0)
     (PyException (str ''connection refused''))"
  by (simp add: extra_stage_raises_def env_model_fails_def env_ok_def download_slack_file_def
      download_def raise_for_status_def transcribe_wav_def analyze_transcript_def Let_def
      py_strip_def py_isspace_def str_def)


text \<open>
  C3, as the code has it. An exception raised by the download, the transcription or the
  analysis is caught in the run. The URL pipeline logs it with the URL and the error text
  and returns \<^verbatim>\<open>None\<close>; it posts no notice. The file-upload pipeline logs it with the file
  name and the error text and posts one notice that names the file and the error; nothing
  leaves the run when posting that notice does not raise.
\<close>

theorem stage_exception_handled:
  "(qa_stage_raises cfg env url w e \<longrightarrow>
      fst (process_wav_url cfg env url ts ch osay oclient w) = None \<and>
      LoggerException (error_processing url e) \<in>
        set (new_calls w (snd (process_wav_url cfg env url ts ch osay oclient w))) \<and>
      filter is_say (new_calls w (snd (process_wav_url cfg env url ts ch osay oclient w))) = []) \<and>
   (extra_stage_raises cfg env url (add_reaction_quiet client ch hourglass ts w) e \<longrightarrow>
      (case extra_run cfg env say client ch ts filename url tmp0 w of
         (raised, tmp_path, w') \<Rightarrow>
           LoggerException (error_logged filename e) \<in> set (new_calls w w') \<and>
           filter is_say (new_calls w w') = [Say (error_analyzing filename e) ts] \<and>
           ((\<forall>w''. say w'' (error_analyzing filename e) ts = None) \<longrightarrow> raised = None))) \<and>
   py_in url (error_processing url e) \<and> py_in (exc_str e) (error_processing url e) \<and>
   py_in filename (error_logged filename e) \<and> py_in (exc_str e) (error_logged filename e) \<and>
   py_in filename (error_analyzing filename e) \<and> py_in (exc_str e) (error_analyzing filename e)"
proof -
  have 1: "qa_stage_raises cfg env url w e \<longrightarrow>
      fst (process_wav_url cfg env url ts ch osay oclient w) = None \<and>
      LoggerException (error_processing url e) \<in>
        set (new_calls w (snd (process_wav_url cfg env url ts ch osay oclient w))) \<and>
      filter is_say (new_calls w (snd (process_wav_url cfg env url ts ch osay oclient w))) = []"
    using qa_stage_raises_run [where ts = ts and ch = ch and say = osay and client = oclient] by blast
  have 2: "extra_stage_raises cfg env url (add_reaction_quiet client ch hourglass ts w) e \<longrightarrow>
      (case extra_run cfg env say client ch ts filename url tmp0 w of
         (raised, tmp_path, w') \<Rightarrow>
           LoggerException (error_logged filename e) \<in> set (new_calls w w') \<and>
           filter is_say (new_calls w w') = [Say (error_analyzing filename e) ts] \<and>
           ((\<forall>w''. say w'' (error_analyzing filename e) ts = None) \<longrightarrow> raised = None))"
    using extra_stage_raises_run [where say = say and filename = filename and ?tmp0.0 = tmp0] by (intro impI)
  note n = notice_names_file_and_error [of filename e url]
  show ?thesis
    by (intro conjI) (rule 1 2 n [THEN conjunct1] n [THEN conjunct2, THEN conjunct1]
      n [THEN conjunct2, THEN conjunct2, THEN conjunct1]
      n [THEN conjunct2, THEN conjunct2, THEN conjunct2, THEN conjunct1]
      n [THEN conjunct2, THEN conjunct2, THEN conjunct2, THEN conjunct2, THEN conjunct1]
      n [THEN conjunct2, THEN conjunct2, THEN conjunct2, THEN conjunct2, THEN conjunct2])+
qed


theorem stage_exception_handled_witness:
  "qa_stage_raises config_production env_download_fails (str ''https://h/a.wav'') world0
     (PyException (str ''timed out'')) \<and>
   fst (process_wav_url config_production env_download_fails (str ''https://h/a.wav'') (str ''1.0'')
          (str ''C0123ABCDEF'') (Some say_ok) (Some client_ok) world0) = None \<and>
   LoggerException (error_processing (str ''https://h/a.wav'') (PyException (str ''timed out''))) \<in>
     set (new_calls world0 (snd (process_wav_url config_production env_download_fails
            (str ''https://h/a.wav'') (str ''1.0'') (str ''C0123ABCDEF'') (Some say_ok) (Some client_ok)
            world0))) \<and>
   extra_stage_raises config_source env_model_fails (str ''https://files/call.wav'')
     (add_reaction_quiet client_ok (str ''C0123ABCDEF'') hourglass (str ''1.0'') world0)
     (PyException (str ''connection refused'')) \<and>
   (\<forall>w''. say_ok w'' (error_analyzing (str ''call.wav'') (PyException (str ''connection refused'')))
            (str ''1.0'') = None) \<and>
   (case extra_run config_source env_model_fails say_ok client_ok (str ''C0123ABCDEF'') (str ''1.0'')
           (str ''call.wav'') (str ''https://files/call.wav'') None world0 of
      (raised, tmp_path, w') \<Rightarrow>
        raised = None \<and>
        filter is_say (new_calls world0 w') =
          [Say (error_analyzing (str ''call.wav'') (PyException (str ''connection refused'')))
             (str ''1.0'')])"
proof -
  note q = stage_exception_handled [where cfg = config_production and env = env_download_fails
      and url = "str ''https://h/a.wav''" and w = world0 and e = "PyException (str ''timed out'')"
      and ts = "str ''1.0''" and ch = "str ''C0123ABCDEF''" and osay = "Some say_ok"
      and oclient = "Some client_ok", THEN conjunct1, rule_format, OF qa_download_raises]
  note x = stage_exception_handled [where cfg = config_source and env = env_model_fails
      and url = "str ''https://files/call.wav''" and w = world0
      and e = "PyException (str ''connection refused'')" and ts = "str ''1.0''"
      and ch = "str ''C0123ABCDEF''" and say = say_ok and client = client_ok
      and filename = "str ''call.wav''" and ?tmp0.0 = None,
      THEN conjunct2, THEN conjunct1, rule_format, OF extra_model_raises]
  have s: "\<forall>w''. say_ok w'' (error_analyzing (str ''call.wav'') (PyException (str ''connection refused'')))
            (str ''1.0'') = None"
    by (simp add: say_ok_def)
  have x1: "case extra_run config_source env_model_fails say_ok client_ok (str ''C0123ABCDEF'') (str ''1.0'')
           (str ''call.wav'') (str ''https://files/call.wav'') None world0 of
      (raised, tmp_path, w') \<Rightarrow>
        raised = None \<and>
        filter is_say (new_calls world0 w') =
          [Say (error_analyzing (str ''call.wav'') (PyException (str ''connection refused'')))
             (str ''1.0'')]"
    using x s by (auto split: prod.splits)
  show ?thesis
    by (intro conjI) (rule qa_download_raises q [THEN conjunct1] q [THEN conjunct2, THEN conjunct1]
      extra_model_raises s x1)+
qed


text \<open>
  C3 as stated fails in the URL pipeline: in production mode with \<open>say\<close> present, a
  download that raises is logged and no notice is posted.
\<close>

theorem stage_exception_handled_counterexample:
  "qa_stage_raises config_production env_download_fails (str ''https://h/a.wav'') world0
     (PyException (str ''timed out'')) \<and>
   filter is_say
     (new_calls world0 (snd (process_wav_url config_production env_download_fails
        (str ''https://h/a.wav'') (str ''1.0'') (str ''C0123ABCDEF'') (Some say_ok) (Some client_ok)
        world0))) = []"
  using qa_download_raises
    qa_stage_raises_run [OF qa_download_raises, where ts = "str ''1.0''" and ch = "str ''C0123ABCDEF''"
      and say = "Some say_ok" and client = "Some client_ok"]
  by blast

end
